theory Spec2Isabelle
  imports Main
begin

section \<open>Strings and patterns\<close>

text \<open>
  The repository holds the registration server of a tech fest in two variants: the
  disk-backed one (\<^verbatim>\<open>src/BACKEND/server.js\<close>; a second file is an abridged copy of it),
  which keeps the uploaded files and hashes them with MD5, and the in-memory one, which
  hashes the upload buffers with SHA-256 and keeps no file. Both are modelled; where
  they differ the model has one definition for each and \<open>variant\<close> selects.
  The record store answers every query (a lost connection is not modelled), and the
  requests are handled one after the other.
\<close>

text \<open>
  The backend is a Node.js server. Its strings are modelled as HOL strings (lists of
  8-bit characters, read as the code units below 256), an uploaded file's bytes
  likewise. A regular expression literal of the source is a value of \<open>rx\<close>;
  \<open>rx_run r s\<close> lists what is left of \<open>s\<close> after each way \<open>r\<close> can match a
  prefix of it, and \<open>rx_test r s\<close> is \<^verbatim>\<open>/^r$/.test(s)\<close> (JavaScript's \<^verbatim>\<open>$\<close>
  without the \<^verbatim>\<open>m\<close> flag matches at the end of the input only).
\<close>

datatype rx =
    Lit string
  | Range char char
  | OneOf string
  | Seq rx rx
  | Alt rx rx
  | Opt rx
  | Times nat rx

text \<open>The character class \<^verbatim>\<open>[a-b]\<close>: the characters whose code lies between the two.\<close>

definition in_range :: "char \<Rightarrow> char \<Rightarrow> char \<Rightarrow> bool" where
  "in_range a b c = ((of_char a :: nat) \<le> of_char c \<and> (of_char c :: nat) \<le> of_char b)"

fun rx_run :: "rx \<Rightarrow> string \<Rightarrow> string list" where
  "rx_run (Lit w) s = (if take (length w) s = w then [drop (length w) s] else [])"
| "rx_run (Range a b) s =
     (case s of [] \<Rightarrow> [] | c # cs \<Rightarrow> if in_range a b c then [cs] else [])"
| "rx_run (OneOf w) s = (case s of [] \<Rightarrow> [] | c # cs \<Rightarrow> if c \<in> set w then [cs] else [])"
| "rx_run (Seq p q) s = concat (map (rx_run q) (rx_run p s))"
| "rx_run (Alt p q) s = rx_run p s @ rx_run q s"
| "rx_run (Opt p) s = rx_run p s @ [s]"
| "rx_run (Times n p) s = ((\<lambda>ss. concat (map (rx_run p) ss)) ^^ n) [s]"

definition rx_test :: "rx \<Rightarrow> string \<Rightarrow> bool" where
  "rx_test r s = ([] \<in> set (rx_run r s))"

text \<open>\<^verbatim>\<open>/^[6-9][0-9]{9}$/\<close>, the pattern of the in-memory server and of the form.\<close>

definition mobile_pattern :: rx where
  "mobile_pattern = Seq (Range CHR ''6'' CHR ''9'') (Times 9 (Range CHR ''0'' CHR ''9''))"

text \<open>
  The disk-backed server calls \<^verbatim>\<open>isMobilePhone('en-IN')\<close> of validator.js, which tests
  the library's pattern for that locale, \<^verbatim>\<open>/^(\+?91|0)?[6789]\d{9}$/\<close>.
\<close>

definition en_IN_pattern :: rx where
  "en_IN_pattern =
     Seq (Opt (Alt (Seq (Opt (Lit ''+'')) (Lit ''91'')) (Lit ''0'')))
         (Seq (OneOf ''6789'') (Times 9 (Range CHR ''0'' CHR ''9'')))"

text \<open>\<^verbatim>\<open>/^[0-9]{12}$/\<close>, the Aadhar pattern of the form's \<^verbatim>\<open>validateForm\<close>.\<close>

definition aadhar_pattern :: rx where
  "aadhar_pattern = Times 12 (Range CHR ''0'' CHR ''9'')"

section \<open>The validators and sanitizers of the request chain\<close>

text \<open>
  express-validator reads a field of the body as a string (an absent field reads as the
  empty string) and hands it to validator.js. \<open>isLength\<close>, \<open>notEmpty\<close>, \<open>trim\<close>
  and \<open>isInt\<close> follow that library: \<open>isInt\<close> tests \<^verbatim>\<open>/^[-+]?[0-9]+$/\<close> and compares
  the number read from the string with the bounds.
\<close>

definition isLength :: "nat \<Rightarrow> nat \<Rightarrow> string \<Rightarrow> bool" where
  "isLength mn mx s = (mn \<le> length s \<and> length s \<le> mx)"

definition notEmpty :: "string \<Rightarrow> bool" where
  "notEmpty s = (s \<noteq> [])"

definition is_space :: "char \<Rightarrow> bool" where
  "is_space c = ((of_char c :: nat) \<in> {9, 10, 11, 12, 13, 32, 160})"

definition trim :: "string \<Rightarrow> string" where
  "trim s = rev (dropWhile is_space (rev (dropWhile is_space s)))"

definition is_digit :: "char \<Rightarrow> bool" where
  "is_digit c = ((48 :: nat) \<le> of_char c \<and> (of_char c :: nat) \<le> 57)"

definition digits_value :: "string \<Rightarrow> int" where
  "digits_value ds = foldl (\<lambda>a c. 10 * a + (int (of_char c) - 48)) 0 ds"

text \<open>\<^verbatim>\<open>Number(str)\<close> on a string that \<open>isInt\<close> accepts.\<close>

definition Number :: "string \<Rightarrow> int" where
  "Number s =
     (case s of
        [] \<Rightarrow> 0
      | c # cs \<Rightarrow>
          if c = CHR ''-'' then - digits_value cs
          else if c = CHR ''+'' then digits_value cs
          else digits_value s)"

definition isInt :: "int \<Rightarrow> int \<Rightarrow> string \<Rightarrow> bool" where
  "isInt mn mx s =
     (let ds = (case s of [] \<Rightarrow> []
                | c # cs \<Rightarrow> if c = CHR ''-'' \<or> c = CHR ''+'' then cs else s)
      in ds \<noteq> [] \<and> list_all is_digit ds \<and> mn \<le> Number s \<and> Number s \<le> mx)"

text \<open>
  \<^verbatim>\<open>isEmail\<close>, \<^verbatim>\<open>normalizeEmail\<close> and the digest behind \<^verbatim>\<open>crypto.createHash\<close>
  (MD5 on disk, SHA-256 in memory) are library code outside the repository: they are
  parameters of the model.
\<close>

record collaborators =
  isEmail :: "string \<Rightarrow> bool"
  normalizeEmail :: "string \<Rightarrow> string"
  createHash :: "string \<Rightarrow> string"

type_synonym fields = "string \<rightharpoonup> string"

definition field :: "fields \<Rightarrow> string \<Rightarrow> string" where
  "field b k = (case b k of None \<Rightarrow> [] | Some v \<Rightarrow> v)"

definition check :: "bool \<Rightarrow> string \<Rightarrow> string \<Rightarrow> (string \<times> string) list" where
  "check ok param msg = (if ok then [] else [(param, msg)])"

text \<open>The chain of \<^verbatim>\<open>src/BACKEND/server.js\<close> (disk-backed), lines 353 to 365.\<close>

definition validationResult_disk :: "collaborators \<Rightarrow> fields \<Rightarrow> (string \<times> string) list" where
  "validationResult_disk lib b =
     check (isEmail lib (field b ''email'')) ''email'' ''Invalid email format''
   @ check (rx_test en_IN_pattern (field b ''mobile'')) ''mobile'' ''Invalid mobile number''
   @ check (notEmpty (trim (field b ''teamName''))) ''teamName'' ''Team name is required''
   @ check (notEmpty (trim (field b ''teamLeaderName''))) ''teamLeaderName''
       ''Team leader name is required''
   @ check (isLength 12 12 (field b ''aadhar'')) ''aadhar'' ''Aadhar must be 12 digits''
   @ check (isInt 1 4 (field b ''teamSize'')) ''teamSize'' ''Team size must be between 1 and 4''
   @ check (notEmpty (field b ''registrationId'')) ''registrationId''
       ''Registration ID is required''
   @ check (notEmpty (field b ''event'')) ''event'' ''Event is required''
   @ check (notEmpty (field b ''gender'')) ''gender'' ''Gender is required''
   @ check (notEmpty (field b ''college'')) ''college'' ''College is required''
   @ check (notEmpty (field b ''course'')) ''course'' ''Course is required''
   @ check (notEmpty (field b ''year'')) ''year'' ''Year is required''
   @ check (notEmpty (field b ''rollno'')) ''rollno'' ''Roll number is required''"

text \<open>The chain of the in-memory server, lines 139 to 151.\<close>

definition validationResult_mem :: "collaborators \<Rightarrow> fields \<Rightarrow> (string \<times> string) list" where
  "validationResult_mem lib b =
     check (isEmail lib (field b ''email'')) ''email'' ''Invalid email format''
   @ check (rx_test mobile_pattern (field b ''mobile'')) ''mobile''
       ''Valid 10-digit mobile number starting with 6-9 is required''
   @ check (notEmpty (trim (field b ''teamName''))) ''teamName'' ''Team name is required''
   @ check (notEmpty (trim (field b ''teamLeaderName''))) ''teamLeaderName''
       ''Team leader name is required''
   @ check (isLength 12 12 (field b ''aadhar'')) ''aadhar'' ''Aadhar must be 12 digits''
   @ check (isInt 1 4 (field b ''teamSize'')) ''teamSize'' ''Team size must be between 1 and 4''
   @ check (notEmpty (field b ''registrationId'')) ''registrationId''
       ''Registration ID is required''
   @ check (notEmpty (field b ''event'')) ''event'' ''Event is required''
   @ check (notEmpty (field b ''gender'')) ''gender'' ''Gender is required''
   @ check (notEmpty (field b ''college'')) ''college'' ''College is required''
   @ check (notEmpty (field b ''course'')) ''course'' ''Course is required''
   @ check (notEmpty (field b ''year'')) ''year'' ''Year is required''
   @ check (notEmpty (field b ''rollno'')) ''rollno'' ''Roll number is required''"

text \<open>
  The sanitizers of the chain rewrite the body in place: \<^verbatim>\<open>normalizeEmail()\<close> after
  \<^verbatim>\<open>isEmail()\<close>, \<^verbatim>\<open>trim()\<close> before \<^verbatim>\<open>notEmpty()\<close> on the two names.
\<close>

definition sanitize :: "collaborators \<Rightarrow> fields \<Rightarrow> fields" where
  "sanitize lib b =
     b(''email'' \<mapsto> normalizeEmail lib (field b ''email''),
       ''teamName'' \<mapsto> trim (field b ''teamName''),
       ''teamLeaderName'' \<mapsto> trim (field b ''teamLeaderName''))"

section \<open>The record store\<close>

text \<open>
  A document of the \<^verbatim>\<open>Registration\<close> model. The two path fields exist in the
  disk-backed schema only and are \<open>None\<close> in the in-memory one.
\<close>

record registration =
  registrationId :: string
  event :: string
  teamName :: string
  teamLeaderName :: string
  email :: string
  mobile :: string
  gender :: string
  college :: string
  course :: string
  year :: string
  rollno :: string
  aadhar :: string
  teamSize :: int
  aadharImage :: "string option"
  aadharImageHash :: string
  collegeId :: "string option"
  collegeIdHash :: string
  createdAt :: nat
  isConfirmed :: bool

datatype variant = Disk | Memory

text \<open>
  What a \<^verbatim>\<open>try\<close> block of a handler can catch: the store's duplicate-key error
  (\<^verbatim>\<open>error.code === 11000\<close>, with the keys of \<^verbatim>\<open>error.keyPattern\<close>, never
  empty), or any other error with its message.
\<close>

datatype thrown = DuplicateKey string "string list" | Failure string

text \<open>
  The collection is the list of its documents in insertion order; \<^verbatim>\<open>findOne\<close>
  answers with the first document that satisfies the query.
\<close>

definition findOne :: "(registration \<Rightarrow> bool) \<Rightarrow> registration list \<Rightarrow> registration option" where
  "findOne q rs = find q rs"

definition path_value :: "registration \<Rightarrow> string \<Rightarrow> string" where
  "path_value r p =
     (if p = ''registrationId'' then registrationId r
      else if p = ''event'' then event r
      else if p = ''teamName'' then teamName r
      else if p = ''email'' then email r
      else if p = ''mobile'' then mobile r
      else if p = ''aadhar'' then aadhar r
      else [])"

text \<open>
  The unique indexes the schema declares, each as its first key and the further ones,
  in the order of their declaration. Only \<^verbatim>\<open>src/BACKEND/server.js\<close> adds the
  compound index on event and team name (line 71). An insert that violates an index
  fails with the duplicate-key error of the first index it violates.
\<close>

definition unique_indexes :: "variant \<Rightarrow> (string \<times> string list) list" where
  "unique_indexes v =
     [(''registrationId'', []), (''teamName'', []), (''email'', []), (''mobile'', []),
      (''aadhar'', [])]
     @ (case v of Disk \<Rightarrow> [(''event'', [''teamName''])] | Memory \<Rightarrow> [])"

definition index_key :: "string \<times> string list \<Rightarrow> registration \<Rightarrow> string list" where
  "index_key ix r = map (path_value r) (fst ix # snd ix)"

definition violated ::
  "variant \<Rightarrow> registration \<Rightarrow> registration list \<Rightarrow> (string \<times> string list) option" where
  "violated v d rs =
     find (\<lambda>ix. list_ex (\<lambda>r. index_key ix r = index_key ix d) rs) (unique_indexes v)"

text \<open>
  Schema validation of a new document: every \<^verbatim>\<open>required\<close> string is non-empty and
  the team size is within \<^verbatim>\<open>min: 1, max: 4\<close>.
\<close>

definition schema_valid :: "variant \<Rightarrow> registration \<Rightarrow> bool" where
  "schema_valid v d =
     (registrationId d \<noteq> [] \<and> event d \<noteq> [] \<and> teamName d \<noteq> [] \<and> teamLeaderName d \<noteq> []
      \<and> email d \<noteq> [] \<and> mobile d \<noteq> [] \<and> gender d \<noteq> [] \<and> college d \<noteq> []
      \<and> course d \<noteq> [] \<and> year d \<noteq> [] \<and> rollno d \<noteq> [] \<and> aadhar d \<noteq> []
      \<and> 1 \<le> teamSize d \<and> teamSize d \<le> 4
      \<and> aadharImageHash d \<noteq> [] \<and> collegeIdHash d \<noteq> []
      \<and> (case v of
           Disk \<Rightarrow> aadharImage d \<noteq> None \<and> aadharImage d \<noteq> Some []
                    \<and> collegeId d \<noteq> None \<and> collegeId d \<noteq> Some []
         | Memory \<Rightarrow> True))"

text \<open>
  \<^verbatim>\<open>registration.save()\<close> of a new document: validate against the schema (the
  library's error message begins with the text below), then insert under the indexes.
\<close>

definition save_new ::
  "variant \<Rightarrow> registration \<Rightarrow> registration list \<Rightarrow> thrown + registration list" where
  "save_new v d rs =
     (if \<not> schema_valid v d then Inl (Failure ''Registration validation failed'')
      else case violated v d rs of
             Some ix \<Rightarrow> Inl (DuplicateKey (fst ix) (snd ix))
           | None \<Rightarrow> Inr (rs @ [d]))"

text \<open>
  \<^verbatim>\<open>registration.save()\<close> of a document that \<^verbatim>\<open>findOne\<close> returned writes its
  modified paths back to that document, the first one the query matches.
\<close>

fun save_found ::
  "(registration \<Rightarrow> bool) \<Rightarrow> (registration \<Rightarrow> registration) \<Rightarrow> registration list
   \<Rightarrow> registration list" where
  "save_found q f [] = []"
| "save_found q f (r # rs) = (if q r then f r # rs else r # save_found q f rs)"

section \<open>Requests, responses and the state of the server\<close>

text \<open>
  A request is what the route sees after the upload middleware (which refuses a file
  of the wrong type or above 300000 bytes before the route runs): the fields of the
  form and, per slot, the uploaded file. multer gives a file its \<open>path\<close> under disk
  storage and its \<open>buffer\<close> under memory storage.
\<close>

record upload =
  originalname :: string
  mimetype :: string
  path :: string
  buffer :: string

record request =
  body :: fields
  files :: "string \<rightharpoonup> upload"

text \<open>
  What a request meets outside the store: the clock, the uploads directory as multer
  left it (reading a path gives the bytes or fails with a message), whether the mail
  transport rejects (and with which message), and the \<^verbatim>\<open>BACKEND_URL\<close> setting.
\<close>

record env =
  now :: nat
  readStream :: "string \<Rightarrow> string + string"
  sendMail_error :: "string option"
  BACKEND_URL :: "string option"

record mail =
  mail_to :: string
  confirmationLink :: string

record state =
  records :: "registration list"
  outbox :: "mail list"

datatype payload =
    ErrorJson string
  | ErrorsJson "(string \<times> string) list"
  | MessageJson string
  | RegisteredJson string string "(string \<times> string) list" nat
  | SheetXlsx "(string list \<times> int) list"

record response =
  status :: nat
  payload :: payload

definition initial :: state where
  "initial = \<lparr>records = [], outbox = []\<rparr>"

section \<open>The registration route\<close>

definition new_Registration ::
  "env \<Rightarrow> fields \<Rightarrow> string option \<Rightarrow> string \<Rightarrow> string option \<Rightarrow> string \<Rightarrow> registration" where
  "new_Registration e b aImage aHash cId cHash =
     \<lparr>registrationId = field b ''registrationId'',
      event = field b ''event'',
      teamName = field b ''teamName'',
      teamLeaderName = field b ''teamLeaderName'',
      email = field b ''email'',
      mobile = field b ''mobile'',
      gender = field b ''gender'',
      college = field b ''college'',
      course = field b ''course'',
      year = field b ''year'',
      rollno = field b ''rollno'',
      aadhar = field b ''aadhar'',
      teamSize = Number (field b ''teamSize''),
      aadharImage = aImage,
      aadharImageHash = aHash,
      collegeId = cId,
      collegeIdHash = cHash,
      createdAt = now e,
      isConfirmed = False\<rparr>"

definition quoted :: "string \<Rightarrow> string" where
  "quoted s = [CHR 0x27] @ s @ [CHR 0x27]"

definition team_message :: "string \<Rightarrow> string \<Rightarrow> string" where
  "team_message tn ev = ''Team '' @ quoted tn @ '' is already registered for '' @ quoted ev"

definition echoed :: "fields \<Rightarrow> (string \<times> string) list" where
  "echoed b =
     map (\<lambda>k. (k, field b k))
       [''registrationId'', ''event'', ''teamName'', ''teamLeaderName'', ''email'', ''mobile'',
        ''gender'', ''college'', ''course'', ''year'', ''rollno'', ''aadhar'', ''teamSize'']"

definition basename :: "string \<Rightarrow> string" where
  "basename p = rev (takeWhile (\<lambda>c. c \<noteq> CHR ''/'') (rev p))"

subsection \<open>Disk-backed server (\<^verbatim>\<open>src/BACKEND/server.js\<close>)\<close>

definition calculateFileHash_disk :: "collaborators \<Rightarrow> env \<Rightarrow> string \<Rightarrow> thrown + string" where
  "calculateFileHash_disk lib e filePath =
     (case readStream e filePath of
        Inl err \<Rightarrow> Inl (Failure err)
      | Inr bytes \<Rightarrow> Inr (createHash lib bytes))"

text \<open>
  The message is sent to the address with the confirmation link in it (the other
  arguments only fill the template); a transport failure is rethrown with a fixed text.
\<close>

definition sendConfirmationEmail_disk :: "env \<Rightarrow> string \<Rightarrow> string \<Rightarrow> mail list \<Rightarrow> thrown + mail list" where
  "sendConfirmationEmail_disk e em rid box =
     (case sendMail_error e of
        Some err \<Rightarrow> Inl (Failure ''Failed to send confirmation email'')
      | None \<Rightarrow>
          Inr (box @ [\<lparr>mail_to = em,
                       confirmationLink = ''http://localhost:5000/api/confirm/'' @ rid\<rparr>]))"

definition uploaded_path :: "request \<Rightarrow> string \<Rightarrow> string option" where
  "uploaded_path req slot =
     (case files req slot of
        None \<Rightarrow> None
      | Some f \<Rightarrow> if path f = [] then None else Some (path f))"

text \<open>
  The \<^verbatim>\<open>try\<close> block: the result is what it throws or the response it sends, with
  the state it leaves. \<^verbatim>\<open>generateExcel\<close>, called before the success response, reads
  the collection, writes the spreadsheet file and catches its own errors: it changes
  neither the collection nor the response.
\<close>

definition register_disk_try ::
  "collaborators \<Rightarrow> env \<Rightarrow> request \<Rightarrow> state \<Rightarrow> (thrown + response) \<times> state" where
  "register_disk_try lib e req s =
     (let b = body req in
      case (uploaded_path req ''aadharImage'', uploaded_path req ''collegeId'') of
        (Some aImage, Some cId) \<Rightarrow>
          (case calculateFileHash_disk lib e aImage of
             Inl err \<Rightarrow> (Inl err, s)
           | Inr aHash \<Rightarrow>
          (case calculateFileHash_disk lib e cId of
             Inl err \<Rightarrow> (Inl err, s)
           | Inr cHash \<Rightarrow>
          (let existingAadhar = findOne (\<lambda>r. aadharImageHash r = aHash) (records s);
               existingCollegeId = findOne (\<lambda>r. collegeIdHash r = cHash) (records s)
           in
           if existingAadhar \<noteq> None then
             (Inr \<lparr>status = 400,
                   payload = ErrorJson ''This Aadhar card image has already been uploaded''\<rparr>, s)
           else if existingCollegeId \<noteq> None then
             (Inr \<lparr>status = 400,
                   payload = ErrorJson ''This College ID image has already been uploaded''\<rparr>, s)
           else if findOne (\<lambda>r. event r = field b ''event'' \<and> teamName r = field b ''teamName'')
                     (records s) \<noteq> None then
             (Inr \<lparr>status = 400,
                   payload = ErrorJson (team_message (field b ''teamName'') (field b ''event''))\<rparr>,
              s)
           else
             (case save_new Disk (new_Registration e b (Some aImage) aHash (Some cId) cHash)
                     (records s) of
                Inl err \<Rightarrow> (Inl err, s)
              | Inr rs \<Rightarrow>
                  (case sendConfirmationEmail_disk e (field b ''email'')
                          (field b ''registrationId'') (outbox s) of
                     Inl err \<Rightarrow> (Inl err, s\<lparr>records := rs\<rparr>)
                   | Inr box \<Rightarrow>
                       (Inr \<lparr>status = 200,
                             payload = RegisteredJson
                               ''Registration successful. Please check your email to confirm.''
                               (field b ''registrationId'')
                               (echoed b @ [(''aadharImage'', basename aImage),
                                            (''collegeId'', basename cId)])
                               (now e)\<rparr>,
                        s\<lparr>records := rs, outbox := box\<rparr>))))))
      | _ \<Rightarrow>
          (Inr \<lparr>status = 400,
                payload = ErrorJson ''Both Aadhar card and College ID images are required''\<rparr>,
           s))"

definition catch_disk :: "thrown \<Rightarrow> response" where
  "catch_disk err =
     (case err of
        DuplicateKey k ks \<Rightarrow> \<lparr>status = 400, payload = ErrorJson (k @ '' already exists'')\<rparr>
      | Failure m \<Rightarrow>
          \<lparr>status = 500,
           payload = ErrorJson
             (if m = [] then ''An unexpected error occurred during registration'' else m)\<rparr>)"

definition register_disk :: "collaborators \<Rightarrow> env \<Rightarrow> request \<Rightarrow> state \<Rightarrow> response \<times> state" where
  "register_disk lib e req s =
     (let errors = validationResult_disk lib (body req) in
      if errors \<noteq> [] then (\<lparr>status = 400, payload = ErrorsJson errors\<rparr>, s)
      else
        (case register_disk_try lib e (req\<lparr>body := sanitize lib (body req)\<rparr>) s of
           (Inl err, s') \<Rightarrow> (catch_disk err, s')
         | (Inr res, s') \<Rightarrow> (res, s')))"

subsection \<open>In-memory server\<close>

definition calculateFileHash_mem :: "collaborators \<Rightarrow> string \<Rightarrow> string" where
  "calculateFileHash_mem lib buf = createHash lib buf"

definition backend_url :: "env \<Rightarrow> string" where
  "backend_url e =
     (case BACKEND_URL e of
        None \<Rightarrow> ''http://localhost:5000''
      | Some u \<Rightarrow> if u = [] then ''http://localhost:5000'' else u)"

definition sendConfirmationEmail_mem :: "env \<Rightarrow> string \<Rightarrow> string \<Rightarrow> mail list \<Rightarrow> thrown + mail list" where
  "sendConfirmationEmail_mem e em rid box =
     (case sendMail_error e of
        Some err \<Rightarrow> Inl (Failure err)
      | None \<Rightarrow>
          Inr (box @ [\<lparr>mail_to = em,
                       confirmationLink = backend_url e @ ''/api/confirm/'' @ rid\<rparr>]))"

definition register_mem_try ::
  "collaborators \<Rightarrow> env \<Rightarrow> request \<Rightarrow> state \<Rightarrow> (thrown + response) \<times> state" where
  "register_mem_try lib e req s =
     (let b = body req in
      case (files req ''aadharImage'', files req ''collegeId'') of
        (Some aFile, Some cFile) \<Rightarrow>
          (let aHash = calculateFileHash_mem lib (buffer aFile);
               cHash = calculateFileHash_mem lib (buffer cFile);
               existingAadhar = findOne (\<lambda>r. aadharImageHash r = aHash) (records s);
               existingCollegeId = findOne (\<lambda>r. collegeIdHash r = cHash) (records s)
           in
           if existingAadhar \<noteq> None \<or> existingCollegeId \<noteq> None then
             (Inl (Failure ''This Aadhar card or College ID image has already been uploaded''), s)
           else if findOne (\<lambda>r. event r = field b ''event'' \<and> teamName r = field b ''teamName'')
                     (records s) \<noteq> None then
             (Inl (Failure (team_message (field b ''teamName'') (field b ''event''))), s)
           else
             (case save_new Memory (new_Registration e b None aHash None cHash) (records s) of
                Inl err \<Rightarrow> (Inl err, s)
              | Inr rs \<Rightarrow>
                  (case sendConfirmationEmail_mem e (field b ''email'')
                          (field b ''registrationId'') (outbox s) of
                     Inl err \<Rightarrow> (Inl err, s\<lparr>records := rs\<rparr>)
                   | Inr box \<Rightarrow>
                       (Inr \<lparr>status = 200,
                             payload = RegisteredJson
                               ''Registration successful. Please check your email to confirm.''
                               (field b ''registrationId'') (echoed b) (now e)\<rparr>,
                        s\<lparr>records := rs, outbox := box\<rparr>))))
      | _ \<Rightarrow> (Inl (Failure ''Both Aadhar card and College ID images are required''), s))"

definition to_upper :: "char \<Rightarrow> char" where
  "to_upper c =
     (if (97 :: nat) \<le> of_char c \<and> (of_char c :: nat) \<le> 122
      then char_of ((of_char c :: nat) - 32) else c)"

definition capitalize :: "string \<Rightarrow> string" where
  "capitalize k = (case k of [] \<Rightarrow> [] | c # cs \<Rightarrow> to_upper c # cs)"

definition catch_mem :: "thrown \<Rightarrow> response" where
  "catch_mem err =
     (case err of
        DuplicateKey k ks \<Rightarrow>
          \<lparr>status = 400, payload = ErrorJson (capitalize k @ '' already exists'')\<rparr>
      | Failure m \<Rightarrow>
          \<lparr>status = 400,
           payload = ErrorJson
             (if m = [] then ''An unexpected error occurred during registration'' else m)\<rparr>)"

definition register_mem :: "collaborators \<Rightarrow> env \<Rightarrow> request \<Rightarrow> state \<Rightarrow> response \<times> state" where
  "register_mem lib e req s =
     (let errors = validationResult_mem lib (body req) in
      if errors \<noteq> [] then (\<lparr>status = 400, payload = ErrorsJson errors\<rparr>, s)
      else
        (case register_mem_try lib e (req\<lparr>body := sanitize lib (body req)\<rparr>) s of
           (Inl err, s') \<Rightarrow> (catch_mem err, s')
         | (Inr res, s') \<Rightarrow> (res, s')))"

definition register :: "variant \<Rightarrow> collaborators \<Rightarrow> env \<Rightarrow> request \<Rightarrow> state \<Rightarrow> response \<times> state" where
  "register v = (case v of Disk \<Rightarrow> register_disk | Memory \<Rightarrow> register_mem)"

section \<open>The confirmation route and the export route\<close>

text \<open>The route is the same text in both servers.\<close>

definition confirm :: "string \<Rightarrow> state \<Rightarrow> response \<times> state" where
  "confirm rid s =
     (case findOne (\<lambda>r. registrationId r = rid) (records s) of
        None \<Rightarrow> (\<lparr>status = 404, payload = ErrorJson ''Registration not found''\<rparr>, s)
      | Some found \<Rightarrow>
          if isConfirmed found then
            (\<lparr>status = 400, payload = ErrorJson ''Email already confirmed''\<rparr>, s)
          else
            (\<lparr>status = 200, payload = MessageJson ''Email confirmed successfully''\<rparr>,
             s\<lparr>records :=
                 save_found (\<lambda>r. registrationId r = rid) (\<lambda>r. r\<lparr>isConfirmed := True\<rparr>)
                   (records s)\<rparr>))"

text \<open>
  \<^verbatim>\<open>GET /api/export-excel\<close> of the in-memory server: one row per document, the columns
  in the order of \<^verbatim>\<open>worksheet.columns\<close> (twelve text cells, then the team size).
\<close>

definition export_row :: "registration \<Rightarrow> string list \<times> int" where
  "export_row r =
     ([registrationId r, event r, teamName r, teamLeaderName r, email r, mobile r, gender r,
       college r, course r, year r, rollno r, aadhar r], teamSize r)"

definition export_excel :: "state \<Rightarrow> response \<times> state" where
  "export_excel s =
     (if records s = [] then
        (\<lparr>status = 404, payload = ErrorJson ''No registrations found to export''\<rparr>, s)
      else (\<lparr>status = 200, payload = SheetXlsx (map export_row (records s))\<rparr>, s))"

section \<open>Runs of the server\<close>

datatype action = Register env request | Confirm string | Export

fun step :: "variant \<Rightarrow> collaborators \<Rightarrow> action \<Rightarrow> state \<Rightarrow> response \<times> state" where
  "step v lib (Register e req) s = register v lib e req s"
| "step v lib (Confirm rid) s = confirm rid s"
| "step v lib Export s = export_excel s"

fun run :: "variant \<Rightarrow> collaborators \<Rightarrow> action list \<Rightarrow> state \<Rightarrow> state" where
  "run v lib [] s = s"
| "run v lib (a # as) s = run v lib as (snd (step v lib a s))"

section \<open>The error kinds of the specification\<close>

definition NotFound :: response where
  "NotFound = \<lparr>status = 404, payload = ErrorJson ''Registration not found''\<rparr>"

definition AlreadyConfirmed :: response where
  "AlreadyConfirmed = \<lparr>status = 400, payload = ErrorJson ''Email already confirmed''\<rparr>"

definition Confirmed :: response where
  "Confirmed = \<lparr>status = 200, payload = MessageJson ''Email confirmed successfully''\<rparr>"

definition DuplicateDocument :: "response \<Rightarrow> bool" where
  "DuplicateDocument res =
     (status res = 400 \<and>
      payload res \<in>
        {ErrorJson ''This Aadhar card image has already been uploaded'',
         ErrorJson ''This College ID image has already been uploaded'',
         ErrorJson ''This Aadhar card or College ID image has already been uploaded''})"

definition DuplicateTeam :: "string \<Rightarrow> string \<Rightarrow> response \<Rightarrow> bool" where
  "DuplicateTeam ev tn res = (res = \<lparr>status = 400, payload = ErrorJson (team_message tn ev)\<rparr>)"

definition DuplicateField :: "string \<Rightarrow> response \<Rightarrow> bool" where
  "DuplicateField k res =
     (status res = 400 \<and>
      payload res \<in> {ErrorJson (k @ '' already exists''),
                      ErrorJson (capitalize k @ '' already exists'')})"

definition ValidationError :: "response \<Rightarrow> bool" where
  "ValidationError res =
     (status res = 400 \<and> (case payload res of ErrorsJson es \<Rightarrow> es \<noteq> [] | _ \<Rightarrow> False))"

definition accepted :: "response \<Rightarrow> bool" where
  "accepted res = (status res = 200)"

section \<open>Notions the properties are stated with\<close>

text \<open>
  The document the route builds for a request: there is one when the chain reports
  no error, both uploads are present and both can be hashed.
\<close>

definition document :: "variant \<Rightarrow> collaborators \<Rightarrow> env \<Rightarrow> request \<Rightarrow> registration option" where
  "document v lib e req =
     (let b = sanitize lib (body req) in
      case v of
        Disk \<Rightarrow>
          if validationResult_disk lib (body req) \<noteq> [] then None
          else
            (case (uploaded_path req ''aadharImage'', uploaded_path req ''collegeId'') of
               (Some aImage, Some cId) \<Rightarrow>
                 (case (calculateFileHash_disk lib e aImage, calculateFileHash_disk lib e cId) of
                    (Inr aHash, Inr cHash) \<Rightarrow>
                      Some (new_Registration e b (Some aImage) aHash (Some cId) cHash)
                  | _ \<Rightarrow> None)
             | _ \<Rightarrow> None)
      | Memory \<Rightarrow>
          if validationResult_mem lib (body req) \<noteq> [] then None
          else
            (case (files req ''aadharImage'', files req ''collegeId'') of
               (Some aFile, Some cFile) \<Rightarrow>
                 Some (new_Registration e b None (calculateFileHash_mem lib (buffer aFile))
                         None (calculateFileHash_mem lib (buffer cFile)))
             | _ \<Rightarrow> None))"

text \<open>The bytes of an upload as the server reads them for hashing.\<close>

definition uploaded_bytes :: "variant \<Rightarrow> env \<Rightarrow> request \<Rightarrow> string \<Rightarrow> string option" where
  "uploaded_bytes v e req slot =
     (case v of
        Disk \<Rightarrow>
          (case uploaded_path req slot of
             None \<Rightarrow> None
           | Some p \<Rightarrow> (case readStream e p of Inl err \<Rightarrow> None | Inr bytes \<Rightarrow> Some bytes))
      | Memory \<Rightarrow> map_option buffer (files req slot))"

text \<open>The conflicts of a candidate document with the stored ones.\<close>

definition same_column_conflict :: "registration \<Rightarrow> registration list \<Rightarrow> bool" where
  "same_column_conflict d rs =
     list_ex (\<lambda>r. aadharImageHash r = aadharImageHash d \<or> collegeIdHash r = collegeIdHash d) rs"

definition either_column_conflict :: "registration \<Rightarrow> registration list \<Rightarrow> bool" where
  "either_column_conflict d rs =
     list_ex (\<lambda>r. aadharImageHash d \<in> {aadharImageHash r, collegeIdHash r}
                 \<or> collegeIdHash d \<in> {aadharImageHash r, collegeIdHash r}) rs"

definition team_conflict :: "registration \<Rightarrow> registration list \<Rightarrow> bool" where
  "team_conflict d rs = list_ex (\<lambda>r. event r = event d \<and> teamName r = teamName d) rs"

definition field_conflict :: "registration \<Rightarrow> registration list \<Rightarrow> bool" where
  "field_conflict d rs =
     list_ex (\<lambda>r. registrationId r = registrationId d \<or> teamName r = teamName d
                 \<or> email r = email d \<or> mobile r = mobile d \<or> aadhar r = aadhar d) rs"

definition unique_fields :: "registration list \<Rightarrow> bool" where
  "unique_fields rs =
     (distinct (map registrationId rs) \<and> distinct (map teamName rs) \<and> distinct (map email rs)
      \<and> distinct (map mobile rs) \<and> distinct (map aadhar rs))"

definition confirmed_at :: "string \<Rightarrow> registration list \<Rightarrow> registration list" where
  "confirmed_at rid rs =
     map (\<lambda>x. if registrationId x = rid then x\<lparr>isConfirmed := True\<rparr> else x) rs"

text \<open>
  \<open>same_but_flag r r'\<close>: the stored document \<open>r\<close> has become \<open>r'\<close> with no field
  changed but, possibly, the confirmation flag, and that only from false to true.
  \<open>kept rs rs'\<close>: every document of \<open>rs\<close> is still there, at its place, in this sense.
\<close>

definition same_but_flag :: "registration \<Rightarrow> registration \<Rightarrow> bool" where
  "same_but_flag r r' =
     (r' = r\<lparr>isConfirmed := isConfirmed r'\<rparr> \<and> (isConfirmed r' \<or> \<not> isConfirmed r))"

definition kept :: "registration list \<Rightarrow> registration list \<Rightarrow> bool" where
  "kept rs rs' =
     (length rs \<le> length rs' \<and> list_all2 same_but_flag rs (take (length rs) rs'))"

section \<open>Concrete requests\<close>

text \<open>
  Stand-ins for the three library functions and a family of requests, to run the
  routes on concrete inputs.
\<close>

definition to_lower :: "char \<Rightarrow> char" where
  "to_lower c =
     (if (65 :: nat) \<le> of_char c \<and> (of_char c :: nat) \<le> 90
      then char_of ((of_char c :: nat) + 32) else c)"

definition demo_lib :: collaborators where
  "demo_lib =
     \<lparr>isEmail = (\<lambda>s. CHR ''@'' \<in> set s),
      normalizeEmail = map to_lower,
      createHash = (\<lambda>bytes. ''digest:'' @ bytes)\<rparr>"

definition demo_form ::
  "string \<Rightarrow> string \<Rightarrow> string \<Rightarrow> string \<Rightarrow> string \<Rightarrow> string \<Rightarrow> fields" where
  "demo_form rid ev tn em mob aad =
     map_of [(''registrationId'', rid), (''event'', ev), (''teamName'', tn),
             (''teamLeaderName'', ''Asha''), (''email'', em), (''mobile'', mob),
             (''gender'', ''female''), (''college'', ''HIET''), (''course'', ''BTech''),
             (''year'', ''2''), (''rollno'', ''17''), (''aadhar'', aad), (''teamSize'', ''3'')]"

definition demo_upload :: "string \<Rightarrow> string \<Rightarrow> upload" where
  "demo_upload name bytes =
     \<lparr>originalname = name, mimetype = ''application/pdf'', path = ''uploads/'' @ name,
      buffer = bytes\<rparr>"

text \<open>The uploads directory holds the given uploads, each under its path.\<close>

definition demo_env :: "upload list \<Rightarrow> string option \<Rightarrow> env" where
  "demo_env dir failure =
     \<lparr>now = 1700000000000,
      readStream =
        (\<lambda>p. case find (\<lambda>u. path u = p) dir of
               None \<Rightarrow> Inl ''ENOENT''
             | Some u \<Rightarrow> Inr (buffer u)),
      sendMail_error = failure,
      BACKEND_URL = None\<rparr>"

definition demo_request ::
  "string \<Rightarrow> string \<Rightarrow> string \<Rightarrow> string \<Rightarrow> string \<Rightarrow> string \<Rightarrow> upload \<Rightarrow> upload \<Rightarrow> request" where
  "demo_request rid ev tn em mob aad aFile cFile =
     \<lparr>body = demo_form rid ev tn em mob aad,
      files = [''aadharImage'' \<mapsto> aFile, ''collegeId'' \<mapsto> cFile]\<rparr>"

text \<open>A stored document, as the in-memory route builds it, with the given flag.\<close>

definition demo_stored :: "string \<Rightarrow> string \<Rightarrow> string \<Rightarrow> string \<Rightarrow> string \<Rightarrow> bool \<Rightarrow> registration" where
  "demo_stored rid tn em mob aad flag =
     (new_Registration (demo_env [] None)
        (demo_form rid ''robo-race'' tn em mob aad) None (''digest:a-'' @ rid) None
        (''digest:c-'' @ rid))
     \<lparr>isConfirmed := flag\<rparr>"

text \<open>
  Two teams: the second uploads as its Aadhar image the bytes the first uploaded as its
  college id. \<open>demo_dir\<close> is the uploads directory that holds the four files.
\<close>

definition first_request :: request where
  "first_request =
     demo_request ''id-1'' ''robo-race'' ''Alpha'' ''asha@example.com'' ''9876543210''
       ''123456789012'' (demo_upload ''aadhar-1.pdf'' ''AAAA'')
       (demo_upload ''college-1.pdf'' ''CCCC'')"

definition cross_request :: request where
  "cross_request =
     demo_request ''id-3'' ''line-follower'' ''Gamma'' ''cara@example.com'' ''9876543212''
       ''123456789014'' (demo_upload ''aadhar-3.pdf'' ''CCCC'')
       (demo_upload ''college-3.pdf'' ''DDDD'')"

definition demo_dir :: "upload list" where
  "demo_dir =
     [demo_upload ''aadhar-1.pdf'' ''AAAA'', demo_upload ''college-1.pdf'' ''CCCC'',
      demo_upload ''aadhar-3.pdf'' ''CCCC'', demo_upload ''college-3.pdf'' ''DDDD'']"

text \<open>The state after the first team has registered with an empty store.\<close>

definition after_first :: "variant \<Rightarrow> state" where
  "after_first v = snd (register v demo_lib (demo_env demo_dir None) first_request initial)"

text \<open>A store of two documents, the first unconfirmed, the second confirmed.\<close>

definition demo_state :: state where
  "demo_state =
     \<lparr>records =
        [demo_stored ''id-1'' ''Alpha'' ''asha@example.com'' ''9876543210'' ''123456789012'' False,
         demo_stored ''id-2'' ''Beta'' ''bela@example.com'' ''9876543211'' ''123456789013'' True],
      outbox = []\<rparr>"







section \<open>Facts about the store\<close>

lemma findOne_None: "findOne q rs = None \<longleftrightarrow> (\<forall>r\<in>set rs. \<not> q r)"
  by (auto simp add: findOne_def find_None_iff)

lemma findOne_unique:
  "distinct (map registrationId rs) \<Longrightarrow> r \<in> set rs \<Longrightarrow>
   findOne (\<lambda>x. registrationId x = registrationId r) rs = Some r"
  unfolding findOne_def by (induction rs) auto

lemma save_found_unique:
  "distinct (map registrationId rs) \<Longrightarrow>
   save_found (\<lambda>x. registrationId x = rid) f rs
     = map (\<lambda>x. if registrationId x = rid then f x else x) rs"
proof (induction rs)
  case Nil
  then show ?case by simp
next
  case (Cons a rs)
  show ?case
  proof (cases "registrationId a = rid")
    case True
    with Cons.prems have "\<forall>x\<in>set rs. registrationId x \<noteq> rid"
      by (auto simp: image_iff)
    then have "map (\<lambda>x. if registrationId x = rid then f x else x) rs = rs"
      by (induction rs) auto
    with True show ?thesis by simp
  next
    case False
    with Cons show ?thesis by simp
  qed
qed

lemma demo_stored_simps:
  "registrationId (demo_stored rid tn em mob aad flag) = rid"
  "isConfirmed (demo_stored rid tn em mob aad flag) = flag"
  by (simp_all add: demo_stored_def new_Registration_def field_def demo_form_def)

section \<open>The confirmation route\<close>

text \<open>
  Claim C3. In a store whose registration ids are pairwise distinct, the confirmation
  route answers in one of three ways. If no document has the id, it answers 404
  "Registration not found" and the state is unchanged. If the document with the id is
  confirmed, it answers 400 "Email already confirmed" and the state is unchanged. If
  the document with the id is unconfirmed, it answers 200, the new store is the old
  one with the flag of that document set and nothing else changed, and a second call
  with the same id answers 400 "Email already confirmed" and changes nothing.
\<close>

theorem confirm_tri_state:
  assumes uniq: "distinct (map registrationId (records s))"
  shows "((\<forall>r\<in>set (records s). registrationId r \<noteq> rid) \<longrightarrow> confirm rid s = (NotFound, s))
    \<and> (\<forall>r\<in>set (records s). registrationId r = rid \<and> isConfirmed r \<longrightarrow>
          confirm rid s = (AlreadyConfirmed, s))
    \<and> (\<forall>r\<in>set (records s). registrationId r = rid \<and> \<not> isConfirmed r \<longrightarrow>
          confirm rid s = (Confirmed, s\<lparr>records := confirmed_at rid (records s)\<rparr>)
          \<and> confirm rid (snd (confirm rid s)) = (AlreadyConfirmed, snd (confirm rid s)))"
proof (intro conjI impI ballI)
  assume "\<forall>r\<in>set (records s). registrationId r \<noteq> rid"
  then have "findOne (\<lambda>r. registrationId r = rid) (records s) = None"
    by (simp add: findOne_None)
  then show "confirm rid s = (NotFound, s)"
    by (simp add: confirm_def NotFound_def)
next
  fix r assume r: "r \<in> set (records s)" and h: "registrationId r = rid \<and> isConfirmed r"
  from findOne_unique [OF uniq r] h
  have "findOne (\<lambda>x. registrationId x = rid) (records s) = Some r" by simp
  with h show "confirm rid s = (AlreadyConfirmed, s)"
    by (simp add: confirm_def AlreadyConfirmed_def)
next
  fix r assume r: "r \<in> set (records s)" and h: "registrationId r = rid \<and> \<not> isConfirmed r"
  from findOne_unique [OF uniq r] h
  have f: "findOne (\<lambda>x. registrationId x = rid) (records s) = Some r" by simp
  with h show c1: "confirm rid s = (Confirmed, s\<lparr>records := confirmed_at rid (records s)\<rparr>)"
    by (simp add: confirm_def Confirmed_def confirmed_at_def save_found_unique [OF uniq])
  let ?s' = "s\<lparr>records := confirmed_at rid (records s)\<rparr>"
  have uniq': "distinct (map registrationId (records ?s'))"
    using uniq by (simp add: confirmed_at_def comp_def if_distrib cong: if_cong)
  have r': "r\<lparr>isConfirmed := True\<rparr> \<in> set (records ?s')"
    using r h by (auto simp: confirmed_at_def image_iff)
  from findOne_unique [OF uniq' r'] h
  have "findOne (\<lambda>x. registrationId x = rid) (records ?s') = Some (r\<lparr>isConfirmed := True\<rparr>)"
    by simp
  then have "confirm rid ?s' = (AlreadyConfirmed, ?s')"
    by (simp add: confirm_def AlreadyConfirmed_def)
  with c1 show "confirm rid (snd (confirm rid s)) = (AlreadyConfirmed, snd (confirm rid s))"
    by simp
qed

theorem confirm_tri_state_witness:
  "distinct (map registrationId (records demo_state))
   \<and> confirm ''id-0'' demo_state = (NotFound, demo_state)
   \<and> confirm ''id-2'' demo_state = (AlreadyConfirmed, demo_state)
   \<and> confirm ''id-1'' demo_state
       = (Confirmed, demo_state\<lparr>records := confirmed_at ''id-1'' (records demo_state)\<rparr>)
   \<and> confirm ''id-1'' (snd (confirm ''id-1'' demo_state))
       = (AlreadyConfirmed, snd (confirm ''id-1'' demo_state))"
proof -
  have u: "distinct (map registrationId (records demo_state))"
    by (simp add: demo_state_def demo_stored_simps)
  have a: "\<forall>r\<in>set (records demo_state). registrationId r \<noteq> ''id-0''"
    by (simp add: demo_state_def demo_stored_simps)
  have b: "\<exists>r\<in>set (records demo_state). registrationId r = ''id-2'' \<and> isConfirmed r"
    by (simp add: demo_state_def demo_stored_simps)
  have c: "\<exists>r\<in>set (records demo_state). registrationId r = ''id-1'' \<and> \<not> isConfirmed r"
    by (simp add: demo_state_def demo_stored_simps)
  from u a b c confirm_tri_state [OF u, of "''id-0''"] confirm_tri_state [OF u, of "''id-2''"]
    confirm_tri_state [OF u, of "''id-1''"]
  show ?thesis by blast
qed

section \<open>The outcomes of the registration route\<close>

lemma findOne_ex: "findOne q rs \<noteq> None \<longleftrightarrow> list_ex q rs"
  by (auto simp add: findOne_None list_ex_iff)

lemma document_mem:
  assumes "document Memory lib e req = Some d"
  shows "validationResult_mem lib (body req) = []
    \<and> (\<exists>aFile cFile. files req ''aadharImage'' = Some aFile \<and> files req ''collegeId'' = Some cFile
          \<and> d = new_Registration e (sanitize lib (body req)) None (createHash lib (buffer aFile))
                  None (createHash lib (buffer cFile)))"
  using assms
  by (auto simp: document_def Let_def calculateFileHash_mem_def split: if_splits option.splits)

lemma document_disk:
  assumes "document Disk lib e req = Some d"
  shows "validationResult_disk lib (body req) = []
    \<and> (\<exists>aImage cId aBytes cBytes.
          uploaded_path req ''aadharImage'' = Some aImage \<and> uploaded_path req ''collegeId'' = Some cId
          \<and> readStream e aImage = Inr aBytes \<and> readStream e cId = Inr cBytes
          \<and> d = new_Registration e (sanitize lib (body req)) (Some aImage) (createHash lib aBytes)
                  (Some cId) (createHash lib cBytes))"
  using assms
  by (auto simp: document_def Let_def calculateFileHash_disk_def split: if_splits option.splits sum.splits)

lemma new_Registration_simps:
  "registrationId (new_Registration e b ai ah ci ch) = field b ''registrationId''"
  "event (new_Registration e b ai ah ci ch) = field b ''event''"
  "teamName (new_Registration e b ai ah ci ch) = field b ''teamName''"
  "email (new_Registration e b ai ah ci ch) = field b ''email''"
  "mobile (new_Registration e b ai ah ci ch) = field b ''mobile''"
  "aadhar (new_Registration e b ai ah ci ch) = field b ''aadhar''"
  "aadharImage (new_Registration e b ai ah ci ch) = ai"
  "collegeId (new_Registration e b ai ah ci ch) = ci"
  "aadharImageHash (new_Registration e b ai ah ci ch) = ah"
  "collegeIdHash (new_Registration e b ai ah ci ch) = ch"
  "isConfirmed (new_Registration e b ai ah ci ch) = False"
  "createdAt (new_Registration e b ai ah ci ch) = now e"
  by (simp_all add: new_Registration_def)

lemma register_mem_document:
  assumes doc: "document Memory lib e req = Some d"
  shows "register_mem lib e req s =
    (if same_column_conflict d (records s) then
       (\<lparr>status = 400,
         payload = ErrorJson ''This Aadhar card or College ID image has already been uploaded''\<rparr>, s)
     else if team_conflict d (records s) then
       (\<lparr>status = 400, payload = ErrorJson (team_message (teamName d) (event d))\<rparr>, s)
     else
       (case save_new Memory d (records s) of
          Inl err \<Rightarrow> (catch_mem err, s)
        | Inr rs \<Rightarrow>
            (case sendMail_error e of
               Some m \<Rightarrow> (catch_mem (Failure m), s\<lparr>records := rs\<rparr>)
             | None \<Rightarrow>
                 (\<lparr>status = 200,
                   payload = RegisteredJson
                     ''Registration successful. Please check your email to confirm.''
                     (registrationId d) (echoed (sanitize lib (body req))) (now e)\<rparr>,
                  s\<lparr>records := rs,
                    outbox := outbox s @
                      [\<lparr>mail_to = email d,
                        confirmationLink = backend_url e @ ''/api/confirm/'' @ registrationId d\<rparr>]\<rparr>))))"
proof -
  from document_mem [OF doc] obtain aFile cFile where
    v: "validationResult_mem lib (body req) = []" and
    fa: "files req ''aadharImage'' = Some aFile" and fc: "files req ''collegeId'' = Some cFile" and
    d: "d = new_Registration e (sanitize lib (body req)) None (createHash lib (buffer aFile))
                  None (createHash lib (buffer cFile))"
    by blast
  have sc: "same_column_conflict d (records s) \<longleftrightarrow>
      findOne (\<lambda>r. aadharImageHash r = createHash lib (buffer aFile)) (records s) \<noteq> None
      \<or> findOne (\<lambda>r. collegeIdHash r = createHash lib (buffer cFile)) (records s) \<noteq> None"
    unfolding findOne_ex
    by (auto simp: same_column_conflict_def d new_Registration_simps list_ex_iff)
  have tc: "team_conflict d (records s) \<longleftrightarrow>
      findOne (\<lambda>r. event r = field (sanitize lib (body req)) ''event''
                 \<and> teamName r = field (sanitize lib (body req)) ''teamName'') (records s) \<noteq> None"
    unfolding findOne_ex
    by (simp add: team_conflict_def d new_Registration_simps)
  show ?thesis
  proof (cases "same_column_conflict d (records s)")
    case True
    with sc have "findOne (\<lambda>r. aadharImageHash r = createHash lib (buffer aFile)) (records s) \<noteq> None
      \<or> findOne (\<lambda>r. collegeIdHash r = createHash lib (buffer cFile)) (records s) \<noteq> None"
      by simp
    with True show ?thesis
      unfolding register_mem_def register_mem_try_def
      by (auto simp add: v fa fc Let_def calculateFileHash_mem_def catch_mem_def)
  next
    case False
    with sc have n: "findOne (\<lambda>r. aadharImageHash r = createHash lib (buffer aFile)) (records s) = None"
      "findOne (\<lambda>r. collegeIdHash r = createHash lib (buffer cFile)) (records s) = None"
      by simp_all
    show ?thesis
    proof (cases "team_conflict d (records s)")
      case True
      with tc have "findOne (\<lambda>r. event r = field (sanitize lib (body req)) ''event''
                 \<and> teamName r = field (sanitize lib (body req)) ''teamName'') (records s) \<noteq> None"
        by simp
      with True False n show ?thesis
        unfolding register_mem_def register_mem_try_def
        by (auto simp add: v fa fc Let_def calculateFileHash_mem_def catch_mem_def d
            new_Registration_simps team_message_def quoted_def)
    next
      case nt: False
      with tc have "findOne (\<lambda>r. event r = field (sanitize lib (body req)) ''event''
                 \<and> teamName r = field (sanitize lib (body req)) ''teamName'') (records s) = None"
        by simp
      with nt False n show ?thesis
        unfolding register_mem_def register_mem_try_def
        by (simp add: v fa fc Let_def calculateFileHash_mem_def d [symmetric]
            sendConfirmationEmail_mem_def split: sum.splits option.splits)
           (simp add: d new_Registration_simps)
    qed
  qed
qed


lemma uploaded_path_body [simp]:
  "uploaded_path (req\<lparr>body := b\<rparr>) slot = uploaded_path req slot"
  by (simp add: uploaded_path_def)

lemma register_disk_document:
  assumes doc: "document Disk lib e req = Some d"
  shows "register_disk lib e req s =
    (if list_ex (\<lambda>r. aadharImageHash r = aadharImageHash d) (records s) then
       (\<lparr>status = 400,
         payload = ErrorJson ''This Aadhar card image has already been uploaded''\<rparr>, s)
     else if list_ex (\<lambda>r. collegeIdHash r = collegeIdHash d) (records s) then
       (\<lparr>status = 400,
         payload = ErrorJson ''This College ID image has already been uploaded''\<rparr>, s)
     else if team_conflict d (records s) then
       (\<lparr>status = 400, payload = ErrorJson (team_message (teamName d) (event d))\<rparr>, s)
     else
       (case save_new Disk d (records s) of
          Inl err \<Rightarrow> (catch_disk err, s)
        | Inr rs \<Rightarrow>
            (case sendMail_error e of
               Some m \<Rightarrow>
                 (catch_disk (Failure ''Failed to send confirmation email''), s\<lparr>records := rs\<rparr>)
             | None \<Rightarrow>
                 (\<lparr>status = 200,
                   payload = RegisteredJson
                     ''Registration successful. Please check your email to confirm.''
                     (registrationId d)
                     (echoed (sanitize lib (body req))
                      @ [(''aadharImage'', basename (the (aadharImage d))),
                         (''collegeId'', basename (the (collegeId d)))])
                     (now e)\<rparr>,
                  s\<lparr>records := rs,
                    outbox := outbox s @
                      [\<lparr>mail_to = email d,
                        confirmationLink =
                          ''http://localhost:5000/api/confirm/'' @ registrationId d\<rparr>]\<rparr>))))"
proof -
  from document_disk [OF doc] obtain aImage cId aBytes cBytes where
    v: "validationResult_disk lib (body req) = []" and
    fa: "uploaded_path req ''aadharImage'' = Some aImage" and
    fc: "uploaded_path req ''collegeId'' = Some cId" and
    ra: "readStream e aImage = Inr aBytes" and rc: "readStream e cId = Inr cBytes" and
    d: "d = new_Registration e (sanitize lib (body req)) (Some aImage) (createHash lib aBytes)
                  (Some cId) (createHash lib cBytes)"
    by blast
  have ea: "list_ex (\<lambda>r. aadharImageHash r = aadharImageHash d) (records s) \<longleftrightarrow>
      findOne (\<lambda>r. aadharImageHash r = createHash lib aBytes) (records s) \<noteq> None"
    unfolding findOne_ex by (simp add: d new_Registration_simps)
  have ec: "list_ex (\<lambda>r. collegeIdHash r = collegeIdHash d) (records s) \<longleftrightarrow>
      findOne (\<lambda>r. collegeIdHash r = createHash lib cBytes) (records s) \<noteq> None"
    unfolding findOne_ex by (simp add: d new_Registration_simps)
  have tc: "team_conflict d (records s) \<longleftrightarrow>
      findOne (\<lambda>r. event r = field (sanitize lib (body req)) ''event''
                 \<and> teamName r = field (sanitize lib (body req)) ''teamName'') (records s) \<noteq> None"
    unfolding findOne_ex
    by (simp add: team_conflict_def d new_Registration_simps)
  show ?thesis
  proof (cases "list_ex (\<lambda>r. aadharImageHash r = aadharImageHash d) (records s)")
    case True
    with ea have "findOne (\<lambda>r. aadharImageHash r = createHash lib aBytes) (records s) \<noteq> None"
      by simp
    with True show ?thesis
      unfolding register_disk_def register_disk_try_def
      by (auto simp add: v fa fc ra rc Let_def calculateFileHash_disk_def)
  next
    case na: False
    with ea have n1: "findOne (\<lambda>r. aadharImageHash r = createHash lib aBytes) (records s) = None"
      by simp
    show ?thesis
    proof (cases "list_ex (\<lambda>r. collegeIdHash r = collegeIdHash d) (records s)")
      case True
      with ec have "findOne (\<lambda>r. collegeIdHash r = createHash lib cBytes) (records s) \<noteq> None"
        by simp
      with True na n1 show ?thesis
        unfolding register_disk_def register_disk_try_def
        by (auto simp add: v fa fc ra rc Let_def calculateFileHash_disk_def)
    next
      case nc: False
      with ec have n2: "findOne (\<lambda>r. collegeIdHash r = createHash lib cBytes) (records s) = None"
        by simp
      show ?thesis
      proof (cases "team_conflict d (records s)")
        case True
        with tc have "findOne (\<lambda>r. event r = field (sanitize lib (body req)) ''event''
                 \<and> teamName r = field (sanitize lib (body req)) ''teamName'') (records s) \<noteq> None"
          by simp
        with True na nc n1 n2 show ?thesis
          unfolding register_disk_def register_disk_try_def
          by (auto simp add: v fa fc ra rc Let_def calculateFileHash_disk_def d
              new_Registration_simps)
      next
        case nt: False
        with tc have "findOne (\<lambda>r. event r = field (sanitize lib (body req)) ''event''
                 \<and> teamName r = field (sanitize lib (body req)) ''teamName'') (records s) = None"
          by simp
        with nt na nc n1 n2 show ?thesis
          unfolding register_disk_def register_disk_try_def
          by (simp add: v fa fc ra rc Let_def calculateFileHash_disk_def d [symmetric]
              sendConfirmationEmail_disk_def split: sum.splits option.splits)
             (simp add: d new_Registration_simps)
      qed
    qed
  qed
qed


lemma register_mem_no_document:
  assumes "document Memory lib e req = None"
  shows "snd (register_mem lib e req s) = s \<and> status (fst (register_mem lib e req s)) = 400"
  using assms unfolding register_mem_def register_mem_try_def document_def
  by (auto simp add: Let_def catch_mem_def split: option.splits if_splits)

lemma register_disk_no_document:
  assumes "document Disk lib e req = None"
  shows "snd (register_disk lib e req s) = s
    \<and> status (fst (register_disk lib e req s)) \<in> {400, 500}"
  using assms unfolding register_disk_def register_disk_try_def document_def
  by (auto simp add: Let_def catch_disk_def calculateFileHash_disk_def
      split: option.splits if_splits sum.splits)

lemma same_column_split:
  "same_column_conflict d rs \<longleftrightarrow>
     list_ex (\<lambda>r. aadharImageHash r = aadharImageHash d) rs
     \<or> list_ex (\<lambda>r. collegeIdHash r = collegeIdHash d) rs"
  by (auto simp: same_column_conflict_def list_ex_iff)

lemma register_no_document:
  assumes "document v lib e req = None"
  shows "snd (register v lib e req s) = s \<and> status (fst (register v lib e req s)) \<in> {400, 500}"
  using assms register_mem_no_document [of lib e req s] register_disk_no_document [of lib e req s]
  by (cases v) (simp_all add: register_def)

lemma register_document_conflict:
  assumes "document v lib e req = Some d" and "same_column_conflict d (records s)"
  shows "DuplicateDocument (fst (register v lib e req s)) \<and> snd (register v lib e req s) = s"
proof (cases v)
  case Disk
  with assms register_disk_document [of lib e req d s] show ?thesis
    by (auto simp add: register_def same_column_split DuplicateDocument_def)
next
  case Memory
  with assms register_mem_document [of lib e req d s] show ?thesis
    by (simp add: register_def DuplicateDocument_def)
qed

lemma register_team_conflict:
  assumes "document v lib e req = Some d" and "\<not> same_column_conflict d (records s)"
    and "team_conflict d (records s)"
  shows "DuplicateTeam (event d) (teamName d) (fst (register v lib e req s))
    \<and> snd (register v lib e req s) = s"
proof (cases v)
  case Disk
  with assms register_disk_document [of lib e req d s] show ?thesis
    by (auto simp add: register_def same_column_split DuplicateTeam_def)
next
  case Memory
  with assms register_mem_document [of lib e req d s] show ?thesis
    by (simp add: register_def DuplicateTeam_def)
qed

lemma register_duplicate_key:
  assumes "document v lib e req = Some d" and "\<not> same_column_conflict d (records s)"
    and "\<not> team_conflict d (records s)" and "save_new v d (records s) = Inl (DuplicateKey k ks)"
  shows "DuplicateField k (fst (register v lib e req s)) \<and> snd (register v lib e req s) = s"
proof (cases v)
  case Disk
  with assms register_disk_document [of lib e req d s] show ?thesis
    by (auto simp add: register_def same_column_split DuplicateField_def catch_disk_def)
next
  case Memory
  with assms register_mem_document [of lib e req d s] show ?thesis
    by (simp add: register_def DuplicateField_def catch_mem_def)
qed

lemma register_save_failure:
  assumes "document v lib e req = Some d" and "\<not> same_column_conflict d (records s)"
    and "\<not> team_conflict d (records s)" and "save_new v d (records s) = Inl err"
  shows "status (fst (register v lib e req s)) \<in> {400, 500} \<and> snd (register v lib e req s) = s"
proof (cases v)
  case Disk
  with assms register_disk_document [of lib e req d s] show ?thesis
    by (auto simp add: register_def same_column_split catch_disk_def split: thrown.splits)
next
  case Memory
  with assms register_mem_document [of lib e req d s] show ?thesis
    by (auto simp add: register_def catch_mem_def split: thrown.splits)
qed

lemma register_mail_failure:
  assumes "document v lib e req = Some d" and "\<not> same_column_conflict d (records s)"
    and "\<not> team_conflict d (records s)" and "save_new v d (records s) = Inr rs"
    and "sendMail_error e = Some m"
  shows "fst (register v lib e req s) =
      (case v of
         Disk \<Rightarrow> \<lparr>status = 500, payload = ErrorJson ''Failed to send confirmation email''\<rparr>
       | Memory \<Rightarrow>
           \<lparr>status = 400,
            payload = ErrorJson
              (if m = [] then ''An unexpected error occurred during registration'' else m)\<rparr>)
    \<and> snd (register v lib e req s) = s\<lparr>records := rs\<rparr>"
proof (cases v)
  case Disk
  with assms register_disk_document [of lib e req d s] show ?thesis
    by (auto simp add: register_def same_column_split catch_disk_def)
next
  case Memory
  with assms register_mem_document [of lib e req d s] show ?thesis
    by (simp add: register_def catch_mem_def)
qed

lemma register_success:
  assumes "document v lib e req = Some d" and "\<not> same_column_conflict d (records s)"
    and "\<not> team_conflict d (records s)" and "save_new v d (records s) = Inr rs"
    and "sendMail_error e = None"
  shows "status (fst (register v lib e req s)) = 200
    \<and> snd (register v lib e req s) =
        s\<lparr>records := rs,
          outbox := outbox s @
            [\<lparr>mail_to = email d,
              confirmationLink =
                (case v of Disk \<Rightarrow> ''http://localhost:5000'' | Memory \<Rightarrow> backend_url e)
                @ ''/api/confirm/'' @ registrationId d\<rparr>]\<rparr>"
proof (cases v)
  case Disk
  with assms register_disk_document [of lib e req d s] show ?thesis
    by (auto simp add: register_def same_column_split)
next
  case Memory
  with assms register_mem_document [of lib e req d s] show ?thesis
    by (simp add: register_def)
qed

lemma save_new_Inr: "save_new v d rs = Inr rs' \<Longrightarrow> rs' = rs @ [d]"
  by (auto simp: save_new_def split: if_splits option.splits)

section \<open>Unique indexes\<close>

lemma index_key_simps:
  "index_key (''registrationId'', []) r = [registrationId r]"
  "index_key (''teamName'', []) r = [teamName r]"
  "index_key (''email'', []) r = [email r]"
  "index_key (''mobile'', []) r = [mobile r]"
  "index_key (''aadhar'', []) r = [aadhar r]"
  "index_key (''event'', [''teamName'']) r = [event r, teamName r]"
  by (simp_all add: index_key_def path_value_def)

lemma violated_None_iff:
  "violated v d rs = None \<longleftrightarrow> \<not> field_conflict d rs \<and> (v = Disk \<longrightarrow> \<not> team_conflict d rs)"
  by (cases v)
     (auto simp add: violated_def find_None_iff unique_indexes_def index_key_simps
        field_conflict_def team_conflict_def list_ex_iff)

lemma violated_Some_key:
  assumes "violated v d rs = Some ix" and "\<not> team_conflict d rs"
  shows "fst ix \<in> {''registrationId'', ''teamName'', ''email'', ''mobile'', ''aadhar''}"
proof -
  from assms(1) have "ix \<in> set (unique_indexes v)"
    and "list_ex (\<lambda>r. index_key ix r = index_key ix d) rs"
    by (auto simp: violated_def find_Some_iff in_set_conv_nth)
  with assms(2) show ?thesis
    by (cases v) (auto simp: unique_indexes_def index_key_simps team_conflict_def list_ex_iff)
qed

lemma save_new_conflict:
  assumes "field_conflict d rs"
  shows "\<exists>err. save_new v d rs = Inl err"
  using assms violated_None_iff [of v d rs]
  by (auto simp: save_new_def split: option.splits)

lemma save_new_duplicate_key:
  assumes "field_conflict d rs" and "\<not> team_conflict d rs" and "schema_valid v d"
  shows "\<exists>k ks. k \<in> {''registrationId'', ''teamName'', ''email'', ''mobile'', ''aadhar''}
            \<and> save_new v d rs = Inl (DuplicateKey k ks)"
proof -
  from assms(1) violated_None_iff [of v d rs] obtain ix where ix: "violated v d rs = Some ix"
    by (cases "violated v d rs") auto
  from violated_Some_key [OF ix assms(2)] ix assms(3) show ?thesis
    by (auto simp: save_new_def)
qed

text \<open>
  Claim C4. When the route has built the candidate document of a request and the
  duplicate check finds a conflict with the stored documents (a digest already in its
  own column, the pair of event and team name, or one of the five unique fields), the
  response is not a success and the state after the request is the state before it: no
  document is written and no mail is sent. The response is DuplicateDocument for a
  digest, DuplicateTeam for the pair, and names one of the five fields otherwise
  (given that the candidate passes the schema's own validation).
\<close>

theorem conflict_rejected_unchanged:
  assumes doc: "document v lib e req = Some d"
    and conflict: "same_column_conflict d (records s) \<or> team_conflict d (records s)
                   \<or> field_conflict d (records s)"
  shows "\<not> accepted (fst (register v lib e req s)) \<and> snd (register v lib e req s) = s
    \<and> (same_column_conflict d (records s) \<longrightarrow> DuplicateDocument (fst (register v lib e req s)))
    \<and> (\<not> same_column_conflict d (records s) \<and> team_conflict d (records s) \<longrightarrow>
          DuplicateTeam (event d) (teamName d) (fst (register v lib e req s)))
    \<and> (\<not> same_column_conflict d (records s) \<and> \<not> team_conflict d (records s)
          \<and> schema_valid v d \<longrightarrow>
          (\<exists>k\<in>{''registrationId'', ''teamName'', ''email'', ''mobile'', ''aadhar''}.
              DuplicateField k (fst (register v lib e req s))))"
proof (cases "same_column_conflict d (records s)")
  case True
  from register_document_conflict [OF doc True] True show ?thesis
    by (simp add: DuplicateDocument_def accepted_def)
next
  case nd: False
  show ?thesis
  proof (cases "team_conflict d (records s)")
    case True
    from register_team_conflict [OF doc nd True] nd True show ?thesis
      by (simp add: DuplicateTeam_def accepted_def)
  next
    case nt: False
    with nd conflict have fc: "field_conflict d (records s)" by simp
    from save_new_conflict [OF fc] obtain err where "save_new v d (records s) = Inl err" ..
    from register_save_failure [OF doc nd nt this]
    have rej: "\<not> accepted (fst (register v lib e req s)) \<and> snd (register v lib e req s) = s"
      by (auto simp: accepted_def)
    have "\<exists>k\<in>{''registrationId'', ''teamName'', ''email'', ''mobile'', ''aadhar''}.
              DuplicateField k (fst (register v lib e req s))" if sv: "schema_valid v d"
    proof -
      from save_new_duplicate_key [OF fc nt sv] obtain k ks where
        k: "k \<in> {''registrationId'', ''teamName'', ''email'', ''mobile'', ''aadhar''}" and
        sn: "save_new v d (records s) = Inl (DuplicateKey k ks)" by blast
      from register_duplicate_key [OF doc nd nt sn] k show ?thesis by blast
    qed
    with rej nd nt show ?thesis by blast
  qed
qed

section \<open>Evaluating the routes on the concrete requests\<close>

lemma demo_validation_mem:
  "validationResult_mem demo_lib (demo_form rid ev tn em mob aad) = [] \<longleftrightarrow>
     CHR ''@'' \<in> set em \<and> rx_test mobile_pattern mob \<and> trim tn \<noteq> [] \<and> length aad = 12
     \<and> rid \<noteq> [] \<and> ev \<noteq> []"
  by (auto simp add: validationResult_mem_def check_def field_def demo_lib_def demo_form_def
      notEmpty_def trim_def is_space_def isLength_def isInt_def is_digit_def Number_def
      digits_value_def Let_def)

lemma demo_validation_disk:
  "validationResult_disk demo_lib (demo_form rid ev tn em mob aad) = [] \<longleftrightarrow>
     CHR ''@'' \<in> set em \<and> rx_test en_IN_pattern mob \<and> trim tn \<noteq> [] \<and> length aad = 12
     \<and> rid \<noteq> [] \<and> ev \<noteq> []"
  by (auto simp add: validationResult_disk_def check_def field_def demo_lib_def demo_form_def
      notEmpty_def trim_def is_space_def isLength_def isInt_def is_digit_def Number_def
      digits_value_def Let_def)

lemma demo_fields:
  "field (sanitize demo_lib (demo_form rid ev tn em mob aad)) ''registrationId'' = rid"
  "field (sanitize demo_lib (demo_form rid ev tn em mob aad)) ''event'' = ev"
  "field (sanitize demo_lib (demo_form rid ev tn em mob aad)) ''teamName'' = trim tn"
  "field (sanitize demo_lib (demo_form rid ev tn em mob aad)) ''email'' = map to_lower em"
  "field (sanitize demo_lib (demo_form rid ev tn em mob aad)) ''mobile'' = mob"
  "field (sanitize demo_lib (demo_form rid ev tn em mob aad)) ''aadhar'' = aad"
  "field (sanitize demo_lib (demo_form rid ev tn em mob aad)) ''teamLeaderName'' = ''Asha''"
  "field (sanitize demo_lib (demo_form rid ev tn em mob aad)) ''gender'' = ''female''"
  "field (sanitize demo_lib (demo_form rid ev tn em mob aad)) ''college'' = ''HIET''"
  "field (sanitize demo_lib (demo_form rid ev tn em mob aad)) ''course'' = ''BTech''"
  "field (sanitize demo_lib (demo_form rid ev tn em mob aad)) ''year'' = ''2''"
  "field (sanitize demo_lib (demo_form rid ev tn em mob aad)) ''rollno'' = ''17''"
  "Number (field (sanitize demo_lib (demo_form rid ev tn em mob aad)) ''teamSize'') = 3"
  by (simp_all add: sanitize_def field_def demo_form_def demo_lib_def trim_def is_space_def
      Number_def digits_value_def)

lemma demo_document_mem:
  assumes "validationResult_mem demo_lib (demo_form rid ev tn em mob aad) = []"
  shows "document Memory demo_lib e (demo_request rid ev tn em mob aad aFile cFile) =
    Some (new_Registration e (sanitize demo_lib (demo_form rid ev tn em mob aad)) None
            (''digest:'' @ buffer aFile) None (''digest:'' @ buffer cFile))"
  using assms
  by (simp add: document_def demo_request_def calculateFileHash_mem_def demo_lib_def)

lemma demo_document_disk:
  assumes "validationResult_disk demo_lib (demo_form rid ev tn em mob aad) = []"
    and "path aFile \<noteq> []" and "path cFile \<noteq> []"
    and "readStream e (path aFile) = Inr aBytes" and "readStream e (path cFile) = Inr cBytes"
  shows "document Disk demo_lib e (demo_request rid ev tn em mob aad aFile cFile) =
    Some (new_Registration e (sanitize demo_lib (demo_form rid ev tn em mob aad))
            (Some (path aFile)) (''digest:'' @ aBytes) (Some (path cFile)) (''digest:'' @ cBytes))"
  using assms
  by (simp add: document_def demo_request_def calculateFileHash_disk_def demo_lib_def
      uploaded_path_def)

lemma demo_stored_fields:
  "event (demo_stored rid tn em mob aad flag) = ''robo-race''"
  "teamName (demo_stored rid tn em mob aad flag) = tn"
  "email (demo_stored rid tn em mob aad flag) = em"
  "mobile (demo_stored rid tn em mob aad flag) = mob"
  "aadhar (demo_stored rid tn em mob aad flag) = aad"
  "aadharImageHash (demo_stored rid tn em mob aad flag) = ''digest:a-'' @ rid"
  "collegeIdHash (demo_stored rid tn em mob aad flag) = ''digest:c-'' @ rid"
  by (simp_all add: demo_stored_def new_Registration_def field_def demo_form_def)

lemma demo_patterns:
  "rx_test mobile_pattern ''9876543210''"
  "rx_test en_IN_pattern ''9876543210''"
  "rx_test mobile_pattern ''9876543212''"
  "rx_test mobile_pattern ''9876543213''"
  "\<not> rx_test mobile_pattern ''+919876543210''"
  "rx_test en_IN_pattern ''9876543212''"
  "rx_test en_IN_pattern ''9876543213''"
  "rx_test en_IN_pattern ''+919876543210''"
  by (simp_all add: rx_test_def mobile_pattern_def en_IN_pattern_def in_range_def
      eval_nat_numeral)

lemma demo_trims:
  "trim ''Alpha'' = ''Alpha''" "trim ''Gamma'' = ''Gamma''" "trim ''Delta'' = ''Delta''"
  by (simp_all add: trim_def is_space_def)

section \<open>Witnesses of the conflict rule\<close>

theorem conflict_rejected_unchanged_witness:
  "document Memory demo_lib (demo_env [] None)
     (demo_request ''id-3'' ''robo-race'' ''Alpha'' ''cara@example.com'' ''9876543212''
        ''123456789014'' (demo_upload ''a3.pdf'' ''a-id-3'') (demo_upload ''c3.pdf'' ''c-id-3''))
     \<noteq> None
   \<and> team_conflict
       (the (document Memory demo_lib (demo_env [] None)
          (demo_request ''id-3'' ''robo-race'' ''Alpha'' ''cara@example.com'' ''9876543212''
             ''123456789014'' (demo_upload ''a3.pdf'' ''a-id-3'') (demo_upload ''c3.pdf'' ''c-id-3''))))
       (records demo_state)
   \<and> \<not> accepted (fst (register Memory demo_lib (demo_env [] None)
          (demo_request ''id-3'' ''robo-race'' ''Alpha'' ''cara@example.com'' ''9876543212''
             ''123456789014'' (demo_upload ''a3.pdf'' ''a-id-3'') (demo_upload ''c3.pdf'' ''c-id-3''))
          demo_state))
   \<and> snd (register Memory demo_lib (demo_env [] None)
          (demo_request ''id-3'' ''robo-race'' ''Alpha'' ''cara@example.com'' ''9876543212''
             ''123456789014'' (demo_upload ''a3.pdf'' ''a-id-3'') (demo_upload ''c3.pdf'' ''c-id-3''))
          demo_state) = demo_state
   \<and> DuplicateTeam ''robo-race'' ''Alpha''
        (fst (register Memory demo_lib (demo_env [] None)
          (demo_request ''id-3'' ''robo-race'' ''Alpha'' ''cara@example.com'' ''9876543212''
             ''123456789014'' (demo_upload ''a3.pdf'' ''a-id-3'') (demo_upload ''c3.pdf'' ''c-id-3''))
          demo_state))"
proof -
  let ?req = "demo_request ''id-3'' ''robo-race'' ''Alpha'' ''cara@example.com'' ''9876543212''
             ''123456789014'' (demo_upload ''a3.pdf'' ''a-id-3'') (demo_upload ''c3.pdf'' ''c-id-3'')"
  let ?d = "new_Registration (demo_env [] None)
      (sanitize demo_lib (demo_form ''id-3'' ''robo-race'' ''Alpha'' ''cara@example.com''
         ''9876543212'' ''123456789014'')) None
      (''digest:'' @ buffer (demo_upload ''a3.pdf'' ''a-id-3'')) None
      (''digest:'' @ buffer (demo_upload ''c3.pdf'' ''c-id-3''))"
  have v: "validationResult_mem demo_lib (demo_form ''id-3'' ''robo-race'' ''Alpha''
      ''cara@example.com'' ''9876543212'' ''123456789014'') = []"
    by (simp add: demo_validation_mem demo_patterns demo_trims)
  have doc: "document Memory demo_lib (demo_env [] None) ?req = Some ?d"
    by (rule demo_document_mem [OF v])
  have tc: "team_conflict ?d (records demo_state)"
    by (simp add: team_conflict_def demo_state_def new_Registration_simps demo_fields
        demo_stored_fields demo_trims)
  have nd: "\<not> same_column_conflict ?d (records demo_state)"
    by (simp add: same_column_conflict_def demo_state_def new_Registration_simps
        demo_stored_fields demo_upload_def)
  from conflict_rejected_unchanged [OF doc, of demo_state] tc nd doc show ?thesis
    by (simp add: new_Registration_simps demo_fields demo_trims)
qed

lemma demo_schema_valid:
  "schema_valid v (new_Registration e (sanitize demo_lib (demo_form rid ev tn em mob aad))
      ai ah ci ch) \<longleftrightarrow>
     rid \<noteq> [] \<and> ev \<noteq> [] \<and> trim tn \<noteq> [] \<and> em \<noteq> [] \<and> mob \<noteq> [] \<and> aad \<noteq> []
     \<and> ah \<noteq> [] \<and> ch \<noteq> []
     \<and> (v = Disk \<longrightarrow> ai \<noteq> None \<and> ai \<noteq> Some [] \<and> ci \<noteq> None \<and> ci \<noteq> Some [])"
  by (cases v) (auto simp add: schema_valid_def new_Registration_def demo_fields)

lemma save_new_fresh:
  assumes "schema_valid v d" and "\<not> field_conflict d rs" and "\<not> team_conflict d rs"
  shows "save_new v d rs = Inr (rs @ [d])"
  using assms violated_None_iff [of v d rs] by (simp add: save_new_def)

lemma demo_readStream:
  "readStream (demo_env dir failure) p =
     (case find (\<lambda>u. path u = p) dir of None \<Rightarrow> Inl ''ENOENT'' | Some u \<Rightarrow> Inr (buffer u))"
  "sendMail_error (demo_env dir failure) = failure"
  "now (demo_env dir failure) = 1700000000000"
  by (simp_all add: demo_env_def)

section \<open>Document digests are compared column by column\<close>

text \<open>
  Claim C1, as the code has it. When the digest of the candidate's Aadhar image is the
  \<open>aadharImageHash\<close> of a stored document, or the digest of its college id is the
  \<open>collegeIdHash\<close> of a stored document, the request is rejected with
  DuplicateDocument and the state is unchanged. Each digest is looked up in its own
  column only.
\<close>

theorem same_column_duplicate_rejected:
  assumes "document v lib e req = Some d" and "same_column_conflict d (records s)"
  shows "DuplicateDocument (fst (register v lib e req s)) \<and> snd (register v lib e req s) = s"
  using assms by (rule register_document_conflict)

theorem same_column_duplicate_rejected_witness:
  "document Memory demo_lib (demo_env [] None)
     (demo_request ''id-3'' ''line-follower'' ''Gamma'' ''cara@example.com'' ''9876543212''
        ''123456789014'' (demo_upload ''renamed.pdf'' ''a-id-1'') (demo_upload ''c3.pdf'' ''c-id-3''))
     \<noteq> None
   \<and> same_column_conflict
       (the (document Memory demo_lib (demo_env [] None)
          (demo_request ''id-3'' ''line-follower'' ''Gamma'' ''cara@example.com'' ''9876543212''
             ''123456789014'' (demo_upload ''renamed.pdf'' ''a-id-1'')
             (demo_upload ''c3.pdf'' ''c-id-3''))))
       (records demo_state)
   \<and> DuplicateDocument (fst (register Memory demo_lib (demo_env [] None)
          (demo_request ''id-3'' ''line-follower'' ''Gamma'' ''cara@example.com'' ''9876543212''
             ''123456789014'' (demo_upload ''renamed.pdf'' ''a-id-1'')
             (demo_upload ''c3.pdf'' ''c-id-3''))
          demo_state))
   \<and> snd (register Memory demo_lib (demo_env [] None)
          (demo_request ''id-3'' ''line-follower'' ''Gamma'' ''cara@example.com'' ''9876543212''
             ''123456789014'' (demo_upload ''renamed.pdf'' ''a-id-1'')
             (demo_upload ''c3.pdf'' ''c-id-3''))
          demo_state) = demo_state"
proof -
  let ?req = "demo_request ''id-3'' ''line-follower'' ''Gamma'' ''cara@example.com''
      ''9876543212'' ''123456789014'' (demo_upload ''renamed.pdf'' ''a-id-1'')
      (demo_upload ''c3.pdf'' ''c-id-3'')"
  let ?d = "new_Registration (demo_env [] None)
      (sanitize demo_lib (demo_form ''id-3'' ''line-follower'' ''Gamma'' ''cara@example.com''
         ''9876543212'' ''123456789014'')) None
      (''digest:'' @ buffer (demo_upload ''renamed.pdf'' ''a-id-1'')) None
      (''digest:'' @ buffer (demo_upload ''c3.pdf'' ''c-id-3''))"
  have v: "validationResult_mem demo_lib (demo_form ''id-3'' ''line-follower'' ''Gamma''
      ''cara@example.com'' ''9876543212'' ''123456789014'') = []"
    by (simp add: demo_validation_mem demo_patterns demo_trims)
  have doc: "document Memory demo_lib (demo_env [] None) ?req = Some ?d"
    by (rule demo_document_mem [OF v])
  have c: "same_column_conflict ?d (records demo_state)"
    by (simp add: same_column_conflict_def demo_state_def new_Registration_simps
        demo_stored_fields demo_upload_def)
  from same_column_duplicate_rejected [OF doc c] c doc show ?thesis by simp
qed

lemma register_fresh:
  assumes "document v lib e req = Some d" and "\<not> same_column_conflict d (records s)"
    and "\<not> team_conflict d (records s)" and "\<not> field_conflict d (records s)"
    and "schema_valid v d" and "sendMail_error e = None"
  shows "accepted (fst (register v lib e req s))
    \<and> records (snd (register v lib e req s)) = records s @ [d]
    \<and> butlast (outbox (snd (register v lib e req s))) = outbox s
    \<and> mail_to (last (outbox (snd (register v lib e req s)))) = email d"
  using register_success [OF assms(1,2,3) save_new_fresh [OF assms(5,4,3)] assms(6)]
  by (simp add: accepted_def)

text \<open>
  The claim as stated fails. A first team registers; a second team then uploads, as
  its Aadhar image, the bytes the first team uploaded as its college id. The digest is
  in the store, in the other column: both servers accept the second request and insert
  its document.
\<close>

theorem either_column_counterexample:
  "accepted (fst (register Memory demo_lib (demo_env demo_dir None) first_request initial))
   \<and> either_column_conflict
       (the (document Memory demo_lib (demo_env demo_dir None) cross_request))
       (records (after_first Memory))
   \<and> accepted (fst (register Memory demo_lib (demo_env demo_dir None) cross_request
         (after_first Memory)))
   \<and> length (records (snd (register Memory demo_lib (demo_env demo_dir None) cross_request
         (after_first Memory)))) = 2
   \<and> accepted (fst (register Disk demo_lib (demo_env demo_dir None) first_request initial))
   \<and> either_column_conflict
       (the (document Disk demo_lib (demo_env demo_dir None) cross_request))
       (records (after_first Disk))
   \<and> accepted (fst (register Disk demo_lib (demo_env demo_dir None) cross_request
         (after_first Disk)))
   \<and> length (records (snd (register Disk demo_lib (demo_env demo_dir None) cross_request
         (after_first Disk)))) = 2"
proof -
  let ?e = "demo_env demo_dir None"
  let ?b1 = "sanitize demo_lib (demo_form ''id-1'' ''robo-race'' ''Alpha'' ''asha@example.com''
         ''9876543210'' ''123456789012'')"
  let ?b2 = "sanitize demo_lib (demo_form ''id-3'' ''line-follower'' ''Gamma''
         ''cara@example.com'' ''9876543212'' ''123456789014'')"
  let ?m1 = "new_Registration ?e ?b1 None ''digest:AAAA'' None ''digest:CCCC''"
  let ?m2 = "new_Registration ?e ?b2 None ''digest:CCCC'' None ''digest:DDDD''"
  let ?d1 = "new_Registration ?e ?b1 (Some ''uploads/aadhar-1.pdf'') ''digest:AAAA''
      (Some ''uploads/college-1.pdf'') ''digest:CCCC''"
  let ?d2 = "new_Registration ?e ?b2 (Some ''uploads/aadhar-3.pdf'') ''digest:CCCC''
      (Some ''uploads/college-3.pdf'') ''digest:DDDD''"
  have v: "validationResult_mem demo_lib (demo_form ''id-1'' ''robo-race'' ''Alpha''
      ''asha@example.com'' ''9876543210'' ''123456789012'') = []"
    "validationResult_mem demo_lib (demo_form ''id-3'' ''line-follower'' ''Gamma''
      ''cara@example.com'' ''9876543212'' ''123456789014'') = []"
    "validationResult_disk demo_lib (demo_form ''id-1'' ''robo-race'' ''Alpha''
      ''asha@example.com'' ''9876543210'' ''123456789012'') = []"
    "validationResult_disk demo_lib (demo_form ''id-3'' ''line-follower'' ''Gamma''
      ''cara@example.com'' ''9876543212'' ''123456789014'') = []"
    by (simp_all add: demo_validation_mem demo_validation_disk demo_patterns demo_trims)
  have docm: "document Memory demo_lib ?e first_request = Some ?m1"
    "document Memory demo_lib ?e cross_request = Some ?m2"
    using demo_document_mem [OF v(1), of ?e] demo_document_mem [OF v(2), of ?e]
    by (simp_all add: first_request_def cross_request_def demo_upload_def)
  have docd: "document Disk demo_lib ?e first_request = Some ?d1"
    "document Disk demo_lib ?e cross_request = Some ?d2"
    unfolding first_request_def cross_request_def
    using demo_document_disk [OF v(3), of "demo_upload ''aadhar-1.pdf'' ''AAAA''"
        "demo_upload ''college-1.pdf'' ''CCCC''" ?e "''AAAA''" "''CCCC''"]
      demo_document_disk [OF v(4), of "demo_upload ''aadhar-3.pdf'' ''CCCC''"
        "demo_upload ''college-3.pdf'' ''DDDD''" ?e "''CCCC''" "''DDDD''"]
    by (simp_all add: demo_readStream demo_dir_def demo_upload_def)
  have sv: "schema_valid Memory ?m1" "schema_valid Memory ?m2" "schema_valid Disk ?d1"
    "schema_valid Disk ?d2"
    by (simp_all add: demo_schema_valid demo_trims)
  have m1: "accepted (fst (register Memory demo_lib ?e first_request initial))
    \<and> records (after_first Memory) = [?m1]"
    using register_fresh [OF docm(1) _ _ _ sv(1), of initial]
    by (simp add: after_first_def initial_def same_column_conflict_def team_conflict_def field_conflict_def
        demo_readStream)
  have d1: "accepted (fst (register Disk demo_lib ?e first_request initial))
    \<and> records (after_first Disk) = [?d1]"
    using register_fresh [OF docd(1) _ _ _ sv(3), of initial]
    by (simp add: after_first_def initial_def same_column_conflict_def team_conflict_def field_conflict_def
        demo_readStream)
  have m2: "accepted (fst (register Memory demo_lib ?e cross_request
          (after_first Memory)))
    \<and> records (snd (register Memory demo_lib ?e cross_request
          (after_first Memory))) = [?m1, ?m2]"
    using register_fresh [OF docm(2) _ _ _ sv(2),
        of "after_first Memory"] m1
    by (simp add: same_column_conflict_def team_conflict_def field_conflict_def
        demo_readStream new_Registration_simps demo_fields demo_trims to_lower_def)
  have d2: "accepted (fst (register Disk demo_lib ?e cross_request
          (after_first Disk)))
    \<and> records (snd (register Disk demo_lib ?e cross_request
          (after_first Disk))) = [?d1, ?d2]"
    using register_fresh [OF docd(2) _ _ _ sv(4),
        of "after_first Disk"] d1
    by (simp add: same_column_conflict_def team_conflict_def field_conflict_def
        demo_readStream new_Registration_simps demo_fields demo_trims to_lower_def)
  have cm: "either_column_conflict ?m2 [?m1]" "either_column_conflict ?d2 [?d1]"
    by (simp_all add: either_column_conflict_def new_Registration_simps)
  from m1 m2 d1 d2 cm docm docd show ?thesis by simp
qed

section \<open>Stored documents through the routes\<close>

lemma same_but_flag_refl: "same_but_flag r r"
  by (simp add: same_but_flag_def)

lemma same_but_flag_iff:
  "same_but_flag r r' \<longleftrightarrow>
     r\<lparr>isConfirmed := True\<rparr> = r'\<lparr>isConfirmed := True\<rparr> \<and> (isConfirmed r' \<or> \<not> isConfirmed r)"
proof -
  have "r' = r\<lparr>isConfirmed := isConfirmed r'\<rparr>"
    if "r\<lparr>isConfirmed := True\<rparr> = r'\<lparr>isConfirmed := True\<rparr>"
  proof -
    from that have "(r\<lparr>isConfirmed := True\<rparr>)\<lparr>isConfirmed := isConfirmed r'\<rparr>
        = (r'\<lparr>isConfirmed := True\<rparr>)\<lparr>isConfirmed := isConfirmed r'\<rparr>"
      by (rule arg_cong)
    then show ?thesis by simp
  qed
  moreover have "r\<lparr>isConfirmed := True\<rparr> = r'\<lparr>isConfirmed := True\<rparr>"
    if "r' = r\<lparr>isConfirmed := isConfirmed r'\<rparr>"
  proof -
    from that have "r'\<lparr>isConfirmed := True\<rparr> = (r\<lparr>isConfirmed := isConfirmed r'\<rparr>)\<lparr>isConfirmed := True\<rparr>"
      by (rule arg_cong)
    then show ?thesis by simp
  qed
  ultimately show ?thesis unfolding same_but_flag_def by blast
qed

lemma same_but_flag_trans:
  "same_but_flag r r' \<Longrightarrow> same_but_flag r' r'' \<Longrightarrow> same_but_flag r r''"
  unfolding same_but_flag_iff by auto

lemma kept_refl: "kept rs rs"
  by (simp add: kept_def list_all2_refl same_but_flag_refl)

lemma kept_append: "kept rs (rs @ xs)"
  by (simp add: kept_def list_all2_refl same_but_flag_refl)

lemma kept_nth:
  "kept rs rs' \<longleftrightarrow> length rs \<le> length rs' \<and> (\<forall>i<length rs. same_but_flag (rs ! i) (rs' ! i))"
  by (auto simp: kept_def list_all2_conv_all_nth)

lemma kept_trans:
  assumes "kept rs rs'" and "kept rs' rs''"
  shows "kept rs rs''"
  using assms unfolding kept_nth
  by (auto intro: same_but_flag_trans)

lemma length_save_found [simp]: "length (save_found q f rs) = length rs"
  by (induction rs) auto

lemma save_found_flag:
  "list_all2 same_but_flag rs (save_found q (\<lambda>r. r\<lparr>isConfirmed := True\<rparr>) rs)"
proof (induction rs)
  case Nil
  show ?case by simp
next
  case (Cons a rs)
  then show ?case
    by (auto simp: same_but_flag_def list_all2_refl)
qed

lemma confirm_records:
  "length (records (snd (confirm rid s))) = length (records s)
   \<and> list_all2 same_but_flag (records s) (records (snd (confirm rid s)))
   \<and> outbox (snd (confirm rid s)) = outbox s"
  by (auto simp: confirm_def save_found_flag list_all2_refl same_but_flag_refl
      split: option.splits)

lemma register_records:
  "(records (snd (register v lib e req s)) = records s
    \<or> (\<exists>d. document v lib e req = Some d
           \<and> records (snd (register v lib e req s)) = records s @ [d]))"
proof (cases "document v lib e req")
  case None
  from register_no_document [OF None, of s] show ?thesis by simp
next
  case (Some d)
  show ?thesis
  proof (cases "same_column_conflict d (records s)")
    case True
    from register_document_conflict [OF Some True] show ?thesis by simp
  next
    case nd: False
    show ?thesis
    proof (cases "team_conflict d (records s)")
      case True
      from register_team_conflict [OF Some nd True] show ?thesis by simp
    next
      case nt: False
      show ?thesis
      proof (cases "save_new v d (records s)")
        case (Inl err)
        from register_save_failure [OF Some nd nt Inl] show ?thesis by simp
      next
        case (Inr rs)
        from save_new_Inr [OF Inr] have rs: "rs = records s @ [d]" .
        show ?thesis
        proof (cases "sendMail_error e")
          case None
          from register_success [OF Some nd nt Inr None] rs Some show ?thesis by simp
        next
          case (Some m)
          from register_mail_failure [OF \<open>document v lib e req = Some d\<close> nd nt Inr Some] rs
            \<open>document v lib e req = Some d\<close>
          show ?thesis by simp
        qed
      qed
    qed
  qed
qed

lemma step_kept: "kept (records s) (records (snd (step v lib a s)))"
proof (cases a)
  case (Register e req)
  with register_records [of v lib e req s] show ?thesis
    by (auto simp: kept_refl kept_append)
next
  case (Confirm rid)
  with confirm_records [of rid s] show ?thesis
    by (simp add: kept_def)
next
  case Export
  then show ?thesis by (simp add: export_excel_def kept_refl)
qed

lemma run_kept: "kept (records s) (records (run v lib acts s))"
proof (induction acts arbitrary: s)
  case Nil
  show ?case by (simp add: kept_refl)
next
  case (Cons a acts)
  from kept_trans [OF step_kept Cons.IH] show ?case by simp
qed

lemma kept_member:
  assumes "kept rs rs'" and "r \<in> set rs"
  shows "\<exists>r'\<in>set rs'. same_but_flag r r'"
proof -
  from assms(2) obtain i where i: "i < length rs" "rs ! i = r"
    by (auto simp: in_set_conv_nth)
  with assms(1) have "same_but_flag r (rs' ! i)" and "i < length rs'"
    by (auto simp: kept_nth)
  then show ?thesis using nth_mem by blast
qed

lemma run_append: "run v lib (as @ bs) s = run v lib bs (run v lib as s)"
  by (induction as arbitrary: s) auto

section \<open>Only the confirmation flag ever changes\<close>

text \<open>
  Claim C9. Through any sequence of requests every stored document stays in the store,
  at its place, with every field but \<open>isConfirmed\<close> as it was, and that flag only
  goes from false to true. Per route: registration leaves the stored documents as they
  are and at most appends one; the export leaves the state as it is; confirmation keeps
  the number of documents and changes nothing but the flag.
\<close>

theorem stored_documents_never_change:
  "kept (records s) (records (run v lib acts s))
   \<and> (\<exists>new. length new \<le> 1 \<and> records (snd (register v lib e req s)) = records s @ new)
   \<and> snd (export_excel s) = s
   \<and> length (records (snd (confirm rid s))) = length (records s)
   \<and> list_all2 same_but_flag (records s) (records (snd (confirm rid s)))"
proof -
  from register_records [of v lib e req s]
  have "\<exists>new. length new \<le> 1 \<and> records (snd (register v lib e req s)) = records s @ new"
  proof
    assume "records (snd (register v lib e req s)) = records s"
    then have "length ([] :: registration list) \<le> 1
        \<and> records (snd (register v lib e req s)) = records s @ []" by simp
    then show ?thesis by blast
  next
    assume "\<exists>d. document v lib e req = Some d
        \<and> records (snd (register v lib e req s)) = records s @ [d]"
    then obtain d where "records (snd (register v lib e req s)) = records s @ [d]" by blast
    then have "length [d] \<le> 1 \<and> records (snd (register v lib e req s)) = records s @ [d]"
      by simp
    then show ?thesis by blast
  qed
  with run_kept [of s v lib acts] confirm_records [of rid s] show ?thesis
    by (simp add: export_excel_def)
qed

theorem stored_documents_never_change_witness:
  "kept (records demo_state) (records (run Memory demo_lib [Confirm ''id-1'', Export] demo_state))
   \<and> records (run Memory demo_lib [Confirm ''id-1'', Export] demo_state)
       = [(records demo_state ! 0)\<lparr>isConfirmed := True\<rparr>, records demo_state ! 1]
   \<and> \<not> isConfirmed (records demo_state ! 0)
   \<and> snd (export_excel demo_state) = demo_state"
proof -
  have "records (run Memory demo_lib [Confirm ''id-1'', Export] demo_state)
       = [(records demo_state ! 0)\<lparr>isConfirmed := True\<rparr>, records demo_state ! 1]"
    by (simp add: confirm_def findOne_def demo_state_def demo_stored_simps export_excel_def)
  moreover have "\<not> isConfirmed (records demo_state ! 0)"
    by (simp add: demo_state_def demo_stored_simps)
  ultimately show ?thesis
    using stored_documents_never_change [of demo_state Memory demo_lib
        "[Confirm ''id-1'', Export]"]
    by simp
qed

lemma accepted_inserted:
  assumes "accepted (fst (register v lib e req s))"
  shows "\<exists>d. document v lib e req = Some d
    \<and> records (snd (register v lib e req s)) = records s @ [d]
    \<and> \<not> same_column_conflict d (records s) \<and> \<not> team_conflict d (records s)
    \<and> \<not> field_conflict d (records s) \<and> schema_valid v d \<and> sendMail_error e = None"
proof (cases "document v lib e req")
  case None
  from register_no_document [OF None, of s] assms show ?thesis
    by (auto simp: accepted_def)
next
  case (Some d)
  have nd: "\<not> same_column_conflict d (records s)"
  proof
    assume "same_column_conflict d (records s)"
    from register_document_conflict [OF Some this] assms show False
      by (simp add: DuplicateDocument_def accepted_def)
  qed
  have nt: "\<not> team_conflict d (records s)"
  proof
    assume "team_conflict d (records s)"
    from register_team_conflict [OF Some nd this] assms show False
      by (simp add: DuplicateTeam_def accepted_def)
  qed
  obtain rs where rs: "save_new v d (records s) = Inr rs"
  proof (cases "save_new v d (records s)")
    case (Inl err)
    from register_save_failure [OF Some nd nt Inl] assms have False
      by (auto simp: accepted_def)
    then show ?thesis ..
  next
    case (Inr rs)
    then show ?thesis by (rule that)
  qed
  have ok: "sendMail_error e = None"
  proof (cases "sendMail_error e")
    case None
    then show ?thesis .
  next
    case (Some m)
    from register_mail_failure [OF \<open>document v lib e req = Some d\<close> nd nt rs Some] assms
    have False by (cases v) (simp_all add: accepted_def)
    then show ?thesis ..
  qed
  from rs have sv: "schema_valid v d" and vn: "violated v d (records s) = None"
    by (auto simp: save_new_def split: if_splits option.splits)
  from vn have nf: "\<not> field_conflict d (records s)"
    by (simp add: violated_None_iff)
  from register_success [OF Some nd nt rs ok] save_new_Inr [OF rs] Some nd nt nf sv ok
  show ?thesis by simp
qed

section \<open>A failed notification does not undo the insert\<close>

text \<open>
  Claim C6. When the route has inserted the candidate document (no conflict, the save
  succeeds) and the mail transport then fails, the document is in the store, and stays
  there through any later requests; no mail is recorded as sent; and the response is an
  error, not a 200: status 500 "Failed to send confirmation email" from the disk-backed
  server, status 400 with the transport's message from the in-memory server.
\<close>

theorem insert_survives_mail_failure:
  assumes doc: "document v lib e req = Some d"
    and nd: "\<not> same_column_conflict d (records s)" and nt: "\<not> team_conflict d (records s)"
    and saved: "save_new v d (records s) = Inr rs"
    and mail: "sendMail_error e = Some m"
  shows "records (snd (register v lib e req s)) = records s @ [d]
    \<and> outbox (snd (register v lib e req s)) = outbox s
    \<and> \<not> accepted (fst (register v lib e req s))
    \<and> fst (register v lib e req s) =
        (case v of
           Disk \<Rightarrow> \<lparr>status = 500, payload = ErrorJson ''Failed to send confirmation email''\<rparr>
         | Memory \<Rightarrow>
             \<lparr>status = 400,
              payload = ErrorJson
                (if m = [] then ''An unexpected error occurred during registration'' else m)\<rparr>)
    \<and> (\<exists>r\<in>set (records (run v lib acts (snd (register v lib e req s)))). same_but_flag d r)"
proof -
  from register_mail_failure [OF doc nd nt saved mail] save_new_Inr [OF saved]
  have r: "fst (register v lib e req s) =
        (case v of
           Disk \<Rightarrow> \<lparr>status = 500, payload = ErrorJson ''Failed to send confirmation email''\<rparr>
         | Memory \<Rightarrow>
             \<lparr>status = 400,
              payload = ErrorJson
                (if m = [] then ''An unexpected error occurred during registration'' else m)\<rparr>)"
    and s': "snd (register v lib e req s) = s\<lparr>records := records s @ [d]\<rparr>"
    by simp_all
  from r have na: "\<not> accepted (fst (register v lib e req s))"
    by (cases v) (simp_all add: accepted_def)
  from s' have "d \<in> set (records (snd (register v lib e req s)))" by simp
  from kept_member [OF run_kept this]
  have "\<exists>r\<in>set (records (run v lib acts (snd (register v lib e req s)))). same_but_flag d r" .
  with r s' na show ?thesis by simp
qed

theorem insert_survives_mail_failure_witness:
  "document Disk demo_lib (demo_env demo_dir (Some ''ECONNECTION'')) first_request \<noteq> None
   \<and> save_new Disk
        (the (document Disk demo_lib (demo_env demo_dir (Some ''ECONNECTION'')) first_request))
        (records initial)
      = Inr [the (document Disk demo_lib (demo_env demo_dir (Some ''ECONNECTION''))
               first_request)]
   \<and> length (records (snd (register Disk demo_lib (demo_env demo_dir (Some ''ECONNECTION''))
        first_request initial))) = 1
   \<and> outbox (snd (register Disk demo_lib (demo_env demo_dir (Some ''ECONNECTION''))
        first_request initial)) = []
   \<and> status (fst (register Disk demo_lib (demo_env demo_dir (Some ''ECONNECTION''))
        first_request initial)) = 500"
proof -
  let ?e = "demo_env demo_dir (Some ''ECONNECTION'')"
  let ?b1 = "sanitize demo_lib (demo_form ''id-1'' ''robo-race'' ''Alpha'' ''asha@example.com''
         ''9876543210'' ''123456789012'')"
  let ?d1 = "new_Registration ?e ?b1 (Some ''uploads/aadhar-1.pdf'') ''digest:AAAA''
      (Some ''uploads/college-1.pdf'') ''digest:CCCC''"
  have v: "validationResult_disk demo_lib (demo_form ''id-1'' ''robo-race'' ''Alpha''
      ''asha@example.com'' ''9876543210'' ''123456789012'') = []"
    by (simp add: demo_validation_disk demo_patterns demo_trims)
  have doc: "document Disk demo_lib ?e first_request = Some ?d1"
    unfolding first_request_def
    using demo_document_disk [OF v, of "demo_upload ''aadhar-1.pdf'' ''AAAA''"
        "demo_upload ''college-1.pdf'' ''CCCC''" ?e "''AAAA''" "''CCCC''"]
    by (simp add: demo_readStream demo_dir_def demo_upload_def)
  have sv: "schema_valid Disk ?d1"
    by (simp add: demo_schema_valid demo_trims)
  have c: "\<not> same_column_conflict ?d1 (records initial)" "\<not> team_conflict ?d1 (records initial)"
    "\<not> field_conflict ?d1 (records initial)"
    by (simp_all add: initial_def same_column_conflict_def team_conflict_def field_conflict_def)
  have sn: "save_new Disk ?d1 (records initial) = Inr (records initial @ [?d1])"
    by (rule save_new_fresh [OF sv c(3) c(2)])
  have m: "sendMail_error ?e = Some ''ECONNECTION''"
    by (simp add: demo_readStream)
  from insert_survives_mail_failure [OF doc c(1) c(2) sn m, of "[]"] doc sn
  show ?thesis by (simp add: initial_def)
qed

section \<open>The same bytes give the same digest\<close>

lemma document_bytes:
  assumes "document v lib e req = Some d"
  shows "\<exists>bytes. uploaded_bytes v e req ''aadharImage'' = Some bytes
    \<and> aadharImageHash d = createHash lib bytes"
proof (cases v)
  case Disk
  with assms document_disk [of lib e req d] show ?thesis
    by (auto simp: uploaded_bytes_def new_Registration_simps)
next
  case Memory
  with assms document_mem [of lib e req d] show ?thesis
    by (auto simp: uploaded_bytes_def new_Registration_simps)
qed

lemma same_but_flag_hashes:
  assumes "same_but_flag r r'"
  shows "aadharImageHash r' = aadharImageHash r" and "collegeIdHash r' = collegeIdHash r"
    and "email r' = email r" and "teamName r' = teamName r"
proof -
  from assms have eq: "r' = r\<lparr>isConfirmed := isConfirmed r'\<rparr>"
    by (simp add: same_but_flag_def)
  have "aadharImageHash (r\<lparr>isConfirmed := isConfirmed r'\<rparr>) = aadharImageHash r"
    "collegeIdHash (r\<lparr>isConfirmed := isConfirmed r'\<rparr>) = collegeIdHash r"
    "email (r\<lparr>isConfirmed := isConfirmed r'\<rparr>) = email r"
    "teamName (r\<lparr>isConfirmed := isConfirmed r'\<rparr>) = teamName r"
    by simp_all
  with eq show "aadharImageHash r' = aadharImageHash r" and "collegeIdHash r' = collegeIdHash r"
    and "email r' = email r" and "teamName r' = teamName r"
    by simp_all
qed

text \<open>
  Claim C2. Let a first submission be accepted, and let a second submission pass
  validation and hashing with an Aadhar image of the same bytes as the first (the file
  names play no part). The digests of the two images are equal, and the second
  submission, made right after the first or after any further requests, is rejected
  with DuplicateDocument and leaves the state unchanged.
\<close>

theorem identical_image_rejected:
  assumes first: "accepted (fst (register v lib e1 req1 s))"
    and second: "document v lib e2 req2 = Some d2"
    and same: "uploaded_bytes v e1 req1 ''aadharImage'' = uploaded_bytes v e2 req2 ''aadharImage''"
  shows "(\<exists>d1. document v lib e1 req1 = Some d1 \<and> aadharImageHash d1 = aadharImageHash d2)
    \<and> DuplicateDocument
        (fst (register v lib e2 req2 (run v lib acts (snd (register v lib e1 req1 s)))))
    \<and> snd (register v lib e2 req2 (run v lib acts (snd (register v lib e1 req1 s))))
        = run v lib acts (snd (register v lib e1 req1 s))"
proof -
  let ?s1 = "snd (register v lib e1 req1 s)"
  from accepted_inserted [OF first] obtain d1 where
    d1: "document v lib e1 req1 = Some d1" and rs: "records ?s1 = records s @ [d1]"
    by blast
  from document_bytes [OF d1] document_bytes [OF second] same
  have h: "aadharImageHash d1 = aadharImageHash d2" by auto
  from rs have "d1 \<in> set (records ?s1)" by simp
  from kept_member [OF run_kept this] obtain r where
    r: "r \<in> set (records (run v lib acts ?s1))" and f: "same_but_flag d1 r" by blast
  from same_but_flag_hashes(1) [OF f] h have "aadharImageHash r = aadharImageHash d2" by simp
  with r have "same_column_conflict d2 (records (run v lib acts ?s1))"
    by (auto simp: same_column_conflict_def list_ex_iff)
  from register_document_conflict [OF second this] d1 h show ?thesis by blast
qed

lemma demo_first:
  "accepted (fst (register Memory demo_lib (demo_env demo_dir None) first_request initial))"
  "records (after_first Memory) =
     [new_Registration (demo_env demo_dir None)
        (sanitize demo_lib (demo_form ''id-1'' ''robo-race'' ''Alpha'' ''asha@example.com''
           ''9876543210'' ''123456789012'')) None ''digest:AAAA'' None ''digest:CCCC'']"
  "accepted (fst (register Disk demo_lib (demo_env demo_dir None) first_request initial))"
  "records (after_first Disk) =
     [new_Registration (demo_env demo_dir None)
        (sanitize demo_lib (demo_form ''id-1'' ''robo-race'' ''Alpha'' ''asha@example.com''
           ''9876543210'' ''123456789012'')) (Some ''uploads/aadhar-1.pdf'') ''digest:AAAA''
        (Some ''uploads/college-1.pdf'') ''digest:CCCC'']"
proof -
  let ?e = "demo_env demo_dir None"
  let ?b1 = "sanitize demo_lib (demo_form ''id-1'' ''robo-race'' ''Alpha'' ''asha@example.com''
         ''9876543210'' ''123456789012'')"
  let ?m1 = "new_Registration ?e ?b1 None ''digest:AAAA'' None ''digest:CCCC''"
  let ?d1 = "new_Registration ?e ?b1 (Some ''uploads/aadhar-1.pdf'') ''digest:AAAA''
      (Some ''uploads/college-1.pdf'') ''digest:CCCC''"
  have v: "validationResult_mem demo_lib (demo_form ''id-1'' ''robo-race'' ''Alpha''
      ''asha@example.com'' ''9876543210'' ''123456789012'') = []"
    "validationResult_disk demo_lib (demo_form ''id-1'' ''robo-race'' ''Alpha''
      ''asha@example.com'' ''9876543210'' ''123456789012'') = []"
    by (simp_all add: demo_validation_mem demo_validation_disk demo_patterns demo_trims)
  have docm: "document Memory demo_lib ?e first_request = Some ?m1"
    using demo_document_mem [OF v(1), of ?e]
    by (simp add: first_request_def demo_upload_def)
  have docd: "document Disk demo_lib ?e first_request = Some ?d1"
    unfolding first_request_def
    using demo_document_disk [OF v(2), of "demo_upload ''aadhar-1.pdf'' ''AAAA''"
        "demo_upload ''college-1.pdf'' ''CCCC''" ?e "''AAAA''" "''CCCC''"]
    by (simp add: demo_readStream demo_dir_def demo_upload_def)
  have sv: "schema_valid Memory ?m1" "schema_valid Disk ?d1"
    by (simp_all add: demo_schema_valid demo_trims)
  from register_fresh [OF docm _ _ _ sv(1), of initial]
  show "accepted (fst (register Memory demo_lib ?e first_request initial))"
    and "records (after_first Memory) = [?m1]"
    by (simp_all add: after_first_def initial_def same_column_conflict_def team_conflict_def
        field_conflict_def demo_readStream)
  from register_fresh [OF docd _ _ _ sv(2), of initial]
  show "accepted (fst (register Disk demo_lib ?e first_request initial))"
    and "records (after_first Disk) = [?d1]"
    by (simp_all add: after_first_def initial_def same_column_conflict_def team_conflict_def
        field_conflict_def demo_readStream)
qed

theorem identical_image_rejected_witness:
  "accepted (fst (register Memory demo_lib (demo_env demo_dir None) first_request initial))
   \<and> document Memory demo_lib (demo_env [] None)
       (demo_request ''id-4'' ''quiz'' ''Delta'' ''dana@example.com'' ''9876543213''
          ''123456789015'' (demo_upload ''scan-copy.png'' ''AAAA'')
          (demo_upload ''college-4.pdf'' ''EEEE'')) \<noteq> None
   \<and> uploaded_bytes Memory (demo_env demo_dir None) first_request ''aadharImage''
       = uploaded_bytes Memory (demo_env [] None)
          (demo_request ''id-4'' ''quiz'' ''Delta'' ''dana@example.com'' ''9876543213''
            ''123456789015'' (demo_upload ''scan-copy.png'' ''AAAA'')
            (demo_upload ''college-4.pdf'' ''EEEE'')) ''aadharImage''
   \<and> DuplicateDocument (fst (register Memory demo_lib (demo_env [] None)
        (demo_request ''id-4'' ''quiz'' ''Delta'' ''dana@example.com'' ''9876543213''
          ''123456789015'' (demo_upload ''scan-copy.png'' ''AAAA'')
          (demo_upload ''college-4.pdf'' ''EEEE''))
        (run Memory demo_lib [Confirm ''id-1''] (after_first Memory))))
   \<and> snd (register Memory demo_lib (demo_env [] None)
        (demo_request ''id-4'' ''quiz'' ''Delta'' ''dana@example.com'' ''9876543213''
          ''123456789015'' (demo_upload ''scan-copy.png'' ''AAAA'')
          (demo_upload ''college-4.pdf'' ''EEEE''))
        (run Memory demo_lib [Confirm ''id-1''] (after_first Memory)))
       = run Memory demo_lib [Confirm ''id-1''] (after_first Memory)"
proof -
  let ?req = "demo_request ''id-4'' ''quiz'' ''Delta'' ''dana@example.com'' ''9876543213''
          ''123456789015'' (demo_upload ''scan-copy.png'' ''AAAA'')
          (demo_upload ''college-4.pdf'' ''EEEE'')"
  have v: "validationResult_mem demo_lib (demo_form ''id-4'' ''quiz'' ''Delta''
      ''dana@example.com'' ''9876543213'' ''123456789015'') = []"
    by (simp add: demo_validation_mem demo_patterns demo_trims)
  note doc = demo_document_mem [OF v, of "demo_env [] None"
      "demo_upload ''scan-copy.png'' ''AAAA''" "demo_upload ''college-4.pdf'' ''EEEE''"]
  have same: "uploaded_bytes Memory (demo_env demo_dir None) first_request ''aadharImage''
       = uploaded_bytes Memory (demo_env [] None) ?req ''aadharImage''"
    by (simp add: uploaded_bytes_def first_request_def demo_request_def demo_upload_def)
  from identical_image_rejected [OF demo_first(1) doc same, of "[Confirm ''id-1'']"]
    demo_first(1) doc same
  show ?thesis by (simp add: after_first_def)
qed

section \<open>The five unique fields\<close>

lemma map_save_found:
  assumes "\<And>r. g (f r) = g r"
  shows "map g (save_found q f rs) = map g rs"
  by (induction rs) (auto simp: assms)

lemma unique_fields_confirm:
  "unique_fields (records (snd (confirm rid s))) = unique_fields (records s)"
  by (simp add: confirm_def unique_fields_def map_save_found split: option.splits)

lemma unique_fields_append:
  assumes "unique_fields rs" and "\<not> field_conflict d rs"
  shows "unique_fields (rs @ [d])"
  using assms
  by (auto simp: unique_fields_def field_conflict_def list_ex_iff)

lemma unique_fields_register:
  assumes "unique_fields (records s)"
  shows "unique_fields (records (snd (register v lib e req s)))"
proof -
  from register_records [of v lib e req s] show ?thesis
  proof
    assume "records (snd (register v lib e req s)) = records s"
    with assms show ?thesis by simp
  next
    assume "\<exists>d. document v lib e req = Some d
        \<and> records (snd (register v lib e req s)) = records s @ [d]"
    then obtain d where doc: "document v lib e req = Some d"
      and rs: "records (snd (register v lib e req s)) = records s @ [d]" by blast
    have "\<not> field_conflict d (records s)"
    proof
      assume fc: "field_conflict d (records s)"
      have "snd (register v lib e req s) = s"
      proof (cases "same_column_conflict d (records s)")
        case True
        from register_document_conflict [OF doc True] show ?thesis by simp
      next
        case nd: False
        show ?thesis
        proof (cases "team_conflict d (records s)")
          case True
          from register_team_conflict [OF doc nd True] show ?thesis by simp
        next
          case nt: False
          from save_new_conflict [OF fc] obtain err where "save_new v d (records s) = Inl err" ..
          from register_save_failure [OF doc nd nt this] show ?thesis by simp
        qed
      qed
      with rs show False by simp
    qed
    from unique_fields_append [OF assms this] rs show ?thesis by simp
  qed
qed

lemma export_excel_state: "snd (export_excel s) = s"
  by (simp add: export_excel_def)

lemma unique_fields_step:
  assumes "unique_fields (records s)"
  shows "unique_fields (records (snd (step v lib a s)))"
proof (cases a)
  case (Register e req)
  with unique_fields_register [OF assms] show ?thesis by simp
next
  case (Confirm rid)
  with assms show ?thesis by (simp add: unique_fields_confirm)
next
  case Export
  with assms show ?thesis by (simp add: export_excel_state)
qed

lemma unique_fields_run:
  assumes "unique_fields (records s)"
  shows "unique_fields (records (run v lib acts s))"
  using assms
proof (induction acts arbitrary: s)
  case Nil
  then show ?case by simp
next
  case (Cons a acts)
  from Cons.IH [OF unique_fields_step [OF Cons.prems]] show ?case by simp
qed

lemma violated_teamName:
  assumes "\<not> list_ex (\<lambda>r. registrationId r = registrationId d) rs"
    and "list_ex (\<lambda>r. teamName r = teamName d) rs"
  shows "violated v d rs = Some (''teamName'', [])"
  using assms by (simp add: violated_def unique_indexes_def index_key_simps)


text \<open>
  Claim C5. In every state the server reaches from the empty store, the stored
  documents differ pairwise in \<open>registrationId\<close>, in \<open>teamName\<close>, in \<open>email\<close>,
  in \<open>mobile\<close> and in \<open>aadhar\<close>. A submission whose team name is that of a stored
  document registered for another event is rejected and leaves the state unchanged;
  when nothing else collides (no digest, none of the four other unique fields) the
  error names the field \<open>teamName\<close>.
\<close>

theorem team_name_globally_unique:
  assumes reach: "s = run v lib acts initial"
  shows "unique_fields (records s)
    \<and> (\<forall>r\<in>set (records s).
          document v lib e req = Some d \<and> teamName r = teamName d \<and> event r \<noteq> event d \<longrightarrow>
            \<not> accepted (fst (register v lib e req s)) \<and> snd (register v lib e req s) = s
            \<and> (\<not> same_column_conflict d (records s) \<and> schema_valid v d
                \<and> \<not> list_ex (\<lambda>x. registrationId x = registrationId d \<or> email x = email d
                                     \<or> mobile x = mobile d \<or> aadhar x = aadhar d) (records s) \<longrightarrow>
                DuplicateField ''teamName'' (fst (register v lib e req s))))"
proof (intro conjI ballI impI)
  have "unique_fields (records initial)"
    by (simp add: initial_def unique_fields_def)
  from unique_fields_run [OF this] reach show u: "unique_fields (records s)" by simp
  fix r
  assume r: "r \<in> set (records s)"
    and h: "document v lib e req = Some d \<and> teamName r = teamName d \<and> event r \<noteq> event d"
  then have doc: "document v lib e req = Some d" by simp
  from r h have tn: "list_ex (\<lambda>x. teamName x = teamName d) (records s)"
    by (auto simp: list_ex_iff)
  then have fc: "field_conflict d (records s)"
    by (auto simp: field_conflict_def list_ex_iff)
  have nt: "\<not> team_conflict d (records s)"
  proof
    assume "team_conflict d (records s)"
    then obtain x where x: "x \<in> set (records s)" "event x = event d" "teamName x = teamName d"
      by (auto simp: team_conflict_def list_ex_iff)
    from u have "distinct (map teamName (records s))" by (simp add: unique_fields_def)
    with x r h have "x = r" by (auto simp: distinct_map inj_on_def)
    with x h show False by simp
  qed
  have rej: "\<not> accepted (fst (register v lib e req s)) \<and> snd (register v lib e req s) = s"
  proof (cases "same_column_conflict d (records s)")
    case True
    from register_document_conflict [OF doc True] show ?thesis
      by (simp add: DuplicateDocument_def accepted_def)
  next
    case False
    from save_new_conflict [OF fc] obtain err where "save_new v d (records s) = Inl err" ..
    from register_save_failure [OF doc False nt this] show ?thesis
      by (auto simp: accepted_def)
  qed
  then show "\<not> accepted (fst (register v lib e req s))"
    and "snd (register v lib e req s) = s" by simp_all
  assume k: "\<not> same_column_conflict d (records s) \<and> schema_valid v d
      \<and> \<not> list_ex (\<lambda>x. registrationId x = registrationId d \<or> email x = email d
                           \<or> mobile x = mobile d \<or> aadhar x = aadhar d) (records s)"
  then have "\<not> list_ex (\<lambda>x. registrationId x = registrationId d) (records s)"
    by (auto simp: list_ex_iff)
  with violated_teamName [OF _ tn, of v] k
  have "save_new v d (records s) = Inl (DuplicateKey ''teamName'' [])"
    by (simp add: save_new_def)
  from register_duplicate_key [OF doc _ nt this] k
  show "DuplicateField ''teamName'' (fst (register v lib e req s))" by simp
qed

theorem team_name_globally_unique_witness:
  "after_first Memory = run Memory demo_lib [Register (demo_env demo_dir None) first_request] initial
   \<and> unique_fields (records (after_first Memory))
   \<and> document Memory demo_lib (demo_env [] None)
       (demo_request ''id-5'' ''quiz'' ''Alpha'' ''eli@example.com'' ''9876543213''
          ''123456789015'' (demo_upload ''aadhar-5.pdf'' ''FFFF'')
          (demo_upload ''college-5.pdf'' ''GGGG'')) \<noteq> None
   \<and> (\<exists>r\<in>set (records (after_first Memory)). teamName r = ''Alpha'' \<and> event r \<noteq> ''quiz'')
   \<and> \<not> accepted (fst (register Memory demo_lib (demo_env [] None)
       (demo_request ''id-5'' ''quiz'' ''Alpha'' ''eli@example.com'' ''9876543213''
          ''123456789015'' (demo_upload ''aadhar-5.pdf'' ''FFFF'')
          (demo_upload ''college-5.pdf'' ''GGGG'')) (after_first Memory)))
   \<and> snd (register Memory demo_lib (demo_env [] None)
       (demo_request ''id-5'' ''quiz'' ''Alpha'' ''eli@example.com'' ''9876543213''
          ''123456789015'' (demo_upload ''aadhar-5.pdf'' ''FFFF'')
          (demo_upload ''college-5.pdf'' ''GGGG'')) (after_first Memory)) = after_first Memory
   \<and> DuplicateField ''teamName'' (fst (register Memory demo_lib (demo_env [] None)
       (demo_request ''id-5'' ''quiz'' ''Alpha'' ''eli@example.com'' ''9876543213''
          ''123456789015'' (demo_upload ''aadhar-5.pdf'' ''FFFF'')
          (demo_upload ''college-5.pdf'' ''GGGG'')) (after_first Memory)))"
proof -
  let ?req = "demo_request ''id-5'' ''quiz'' ''Alpha'' ''eli@example.com'' ''9876543213''
          ''123456789015'' (demo_upload ''aadhar-5.pdf'' ''FFFF'')
          (demo_upload ''college-5.pdf'' ''GGGG'')"
  let ?d = "new_Registration (demo_env [] None)
      (sanitize demo_lib (demo_form ''id-5'' ''quiz'' ''Alpha'' ''eli@example.com''
         ''9876543213'' ''123456789015'')) None
      (''digest:'' @ buffer (demo_upload ''aadhar-5.pdf'' ''FFFF'')) None
      (''digest:'' @ buffer (demo_upload ''college-5.pdf'' ''GGGG''))"
  let ?r = "new_Registration (demo_env demo_dir None)
        (sanitize demo_lib (demo_form ''id-1'' ''robo-race'' ''Alpha'' ''asha@example.com''
           ''9876543210'' ''123456789012'')) None ''digest:AAAA'' None ''digest:CCCC''"
  have reach: "after_first Memory
      = run Memory demo_lib [Register (demo_env demo_dir None) first_request] initial"
    by (simp add: after_first_def)
  have v: "validationResult_mem demo_lib (demo_form ''id-5'' ''quiz'' ''Alpha''
      ''eli@example.com'' ''9876543213'' ''123456789015'') = []"
    by (simp add: demo_validation_mem demo_patterns demo_trims)
  have doc: "document Memory demo_lib (demo_env [] None) ?req = Some ?d"
    by (rule demo_document_mem [OF v])
  have r: "?r \<in> set (records (after_first Memory))"
    by (simp add: demo_first(2))
  have names: "teamName ?r = teamName ?d \<and> event ?r \<noteq> event ?d" "teamName ?r = ''Alpha''"
    "event ?r \<noteq> ''quiz''"
    by (simp_all add: new_Registration_simps demo_fields demo_trims)
  have nd: "\<not> same_column_conflict ?d (records (after_first Memory))"
    by (simp add: demo_first(2) same_column_conflict_def new_Registration_simps demo_upload_def)
  have sv: "schema_valid Memory ?d"
    by (simp add: demo_schema_valid demo_trims demo_upload_def)
  have ni: "\<not> list_ex (\<lambda>x. registrationId x = registrationId ?d \<or> email x = email ?d
      \<or> mobile x = mobile ?d \<or> aadhar x = aadhar ?d) (records (after_first Memory))"
    by (simp add: demo_first(2) new_Registration_simps demo_fields to_lower_def)
  from team_name_globally_unique [OF reach, of "demo_env [] None" ?req ?d] r names doc nd sv ni
    reach
  show ?thesis by auto
qed

section \<open>The stored email is the normalised one\<close>





section \<open>The patterns\<close>

lemma rx_run_Range:
  "rx_run (Range a b) s =
     (if s \<noteq> [] \<and> in_range a b (hd s) then [tl s] else [])"
  by (cases s) simp_all

lemma rx_run_Times_Suc:
  "rx_run (Times (Suc n) p) s = concat (map (rx_run p) (rx_run (Times n p) s))"
  by simp

lemma rx_run_Times_Range:
  "rx_run (Times n (Range a b)) s =
     (if n \<le> length s \<and> list_all (in_range a b) (take n s) then [drop n s] else [])"
proof (induction n)
  case 0
  show ?case by simp
next
  case (Suc n)
  show ?case
  proof (cases "n < length s")
    case True
    then have t: "take (Suc n) s = take n s @ [s ! n]" and d: "drop n s = s ! n # drop (Suc n) s"
      by (simp_all add: take_Suc_conv_app_nth Cons_nth_drop_Suc)
    from True Suc show ?thesis
      unfolding rx_run_Times_Suc
      by (simp add: t d rx_run_Range del: rx_run.simps)
  next
    case False
    with Suc show ?thesis
      unfolding rx_run_Times_Suc by (simp add: rx_run_Range del: rx_run.simps)
  qed
qed

lemma mobile_pattern_iff:
  "rx_test mobile_pattern s \<longleftrightarrow>
     length s = 10 \<and> in_range CHR ''6'' CHR ''9'' (hd s) \<and> list_all (in_range CHR ''0'' CHR ''9'') (tl s)"
proof (cases s)
  case Nil
  then show ?thesis by (simp add: rx_test_def mobile_pattern_def)
next
  case (Cons c cs)
  have "rx_test mobile_pattern (c # cs) \<longleftrightarrow>
      in_range CHR ''6'' CHR ''9'' c \<and> [] \<in> set (rx_run (Times 9 (Range CHR ''0'' CHR ''9'')) cs)"
    by (simp add: rx_test_def mobile_pattern_def rx_run_Range del: rx_run.simps(7))
  also have "\<dots> \<longleftrightarrow> in_range CHR ''6'' CHR ''9'' c \<and> length cs = 9
      \<and> list_all (in_range CHR ''0'' CHR ''9'') cs"
    unfolding rx_run_Times_Range by auto
  finally show ?thesis using Cons by auto
qed

lemma aadhar_pattern_iff:
  "rx_test aadhar_pattern s \<longleftrightarrow> length s = 12 \<and> list_all (in_range CHR ''0'' CHR ''9'') s"
  unfolding rx_test_def aadhar_pattern_def rx_run_Times_Range by auto


section \<open>What the chain checks of the Aadhar number and of the mobile number\<close>

lemma validation_rejects:
  assumes "case v of Disk \<Rightarrow> validationResult_disk lib (body req) \<noteq> []
           | Memory \<Rightarrow> validationResult_mem lib (body req) \<noteq> []"
  shows "ValidationError (fst (register v lib e req s)) \<and> snd (register v lib e req s) = s"
  using assms
  by (cases v)
     (simp_all add: register_def register_disk_def register_mem_def ValidationError_def Let_def)

lemma aadhar_length_enforced:
  assumes "length (field (body req) ''aadhar'') \<noteq> 12"
  shows "ValidationError (fst (register v lib e req s)) \<and> snd (register v lib e req s) = s"
proof (rule validation_rejects)
  from assms have "check (isLength 12 12 (field (body req) ''aadhar'')) ''aadhar''
      ''Aadhar must be 12 digits'' \<noteq> []"
    by (auto simp: check_def isLength_def)
  then show "case v of Disk \<Rightarrow> validationResult_disk lib (body req) \<noteq> []
           | Memory \<Rightarrow> validationResult_mem lib (body req) \<noteq> []"
    by (cases v) (simp_all add: validationResult_disk_def validationResult_mem_def)
qed

lemma memory_mobile_enforced:
  assumes "\<not> rx_test mobile_pattern (field (body req) ''mobile'')"
  shows "ValidationError (fst (register Memory lib e req s))
    \<and> snd (register Memory lib e req s) = s"
proof (rule validation_rejects)
  from assms have "check (rx_test mobile_pattern (field (body req) ''mobile'')) ''mobile''
      ''Valid 10-digit mobile number starting with 6-9 is required'' \<noteq> []"
    by (simp add: check_def)
  then show "case Memory of Disk \<Rightarrow> validationResult_disk lib (body req) \<noteq> []
           | Memory \<Rightarrow> validationResult_mem lib (body req) \<noteq> []"
    by (simp add: validationResult_mem_def)
qed

text \<open>
  Claim C7. The chain checks the length of the Aadhar number and nothing else: a
  number of twelve letters, which the form's pattern \<^verbatim>\<open>/^[0-9]{12}$/\<close> rejects,
  passes both servers, is accepted and is stored.
\<close>

theorem aadhar_letters_accepted:
  "\<not> rx_test aadhar_pattern ''abcdefghijkl''
   \<and> accepted (fst (register Memory demo_lib (demo_env demo_dir None)
        (demo_request ''id-1'' ''robo-race'' ''Alpha'' ''asha@example.com'' ''9876543210''
           ''abcdefghijkl'' (demo_upload ''aadhar-1.pdf'' ''AAAA'')
           (demo_upload ''college-1.pdf'' ''CCCC'')) initial))
   \<and> map aadhar (records (snd (register Memory demo_lib (demo_env demo_dir None)
        (demo_request ''id-1'' ''robo-race'' ''Alpha'' ''asha@example.com'' ''9876543210''
           ''abcdefghijkl'' (demo_upload ''aadhar-1.pdf'' ''AAAA'')
           (demo_upload ''college-1.pdf'' ''CCCC'')) initial))) = [''abcdefghijkl'']
   \<and> accepted (fst (register Disk demo_lib (demo_env demo_dir None)
        (demo_request ''id-1'' ''robo-race'' ''Alpha'' ''asha@example.com'' ''9876543210''
           ''abcdefghijkl'' (demo_upload ''aadhar-1.pdf'' ''AAAA'')
           (demo_upload ''college-1.pdf'' ''CCCC'')) initial))
   \<and> map aadhar (records (snd (register Disk demo_lib (demo_env demo_dir None)
        (demo_request ''id-1'' ''robo-race'' ''Alpha'' ''asha@example.com'' ''9876543210''
           ''abcdefghijkl'' (demo_upload ''aadhar-1.pdf'' ''AAAA'')
           (demo_upload ''college-1.pdf'' ''CCCC'')) initial))) = [''abcdefghijkl'']"
proof -
  let ?e = "demo_env demo_dir None"
  let ?aF = "demo_upload ''aadhar-1.pdf'' ''AAAA''" and ?cF = "demo_upload ''college-1.pdf'' ''CCCC''"
  let ?b = "sanitize demo_lib (demo_form ''id-1'' ''robo-race'' ''Alpha'' ''asha@example.com''
         ''9876543210'' ''abcdefghijkl'')"
  let ?m = "new_Registration ?e ?b None (''digest:'' @ buffer ?aF) None (''digest:'' @ buffer ?cF)"
  let ?d = "new_Registration ?e ?b (Some (path ?aF)) (''digest:'' @ ''AAAA'')
      (Some (path ?cF)) (''digest:'' @ ''CCCC'')"
  have np: "\<not> rx_test aadhar_pattern ''abcdefghijkl''"
    by (simp add: aadhar_pattern_iff in_range_def)
  have v: "validationResult_mem demo_lib (demo_form ''id-1'' ''robo-race'' ''Alpha''
      ''asha@example.com'' ''9876543210'' ''abcdefghijkl'') = []"
    "validationResult_disk demo_lib (demo_form ''id-1'' ''robo-race'' ''Alpha''
      ''asha@example.com'' ''9876543210'' ''abcdefghijkl'') = []"
    by (simp_all add: demo_validation_mem demo_validation_disk demo_patterns demo_trims)
  have docm: "document Memory demo_lib ?e
      (demo_request ''id-1'' ''robo-race'' ''Alpha'' ''asha@example.com'' ''9876543210''
         ''abcdefghijkl'' ?aF ?cF) = Some ?m"
    by (rule demo_document_mem [OF v(1)])
  have docd: "document Disk demo_lib ?e
      (demo_request ''id-1'' ''robo-race'' ''Alpha'' ''asha@example.com'' ''9876543210''
         ''abcdefghijkl'' ?aF ?cF) = Some ?d"
    by (rule demo_document_disk [OF v(2)])
       (simp_all add: demo_readStream demo_dir_def demo_upload_def)
  have sv: "schema_valid Memory ?m" "schema_valid Disk ?d"
    by (simp_all add: demo_schema_valid demo_trims demo_upload_def)
  from register_fresh [OF docm _ _ _ sv(1), of initial]
    register_fresh [OF docd _ _ _ sv(2), of initial] np
  show ?thesis
    by (simp add: initial_def same_column_conflict_def team_conflict_def field_conflict_def
        demo_readStream new_Registration_simps demo_fields)
qed

text \<open>
  Claim C8. The in-memory server tests the mobile number against
  \<^verbatim>\<open>/^[6-9][0-9]{9}$/\<close> and rejects a number with an international prefix. The
  disk-backed server tests it with \<^verbatim>\<open>isMobilePhone('en-IN')\<close> instead, whose
  pattern allows the prefixes \<^verbatim>\<open>+91\<close>, \<^verbatim>\<open>91\<close> and \<^verbatim>\<open>0\<close>: it accepts
  \<^verbatim>\<open>+919876543210\<close>, which does not match the pattern of the claim, and stores it.
\<close>

theorem prefixed_mobile_accepted:
  "\<not> rx_test mobile_pattern ''+919876543210''
   \<and> accepted (fst (register Disk demo_lib (demo_env demo_dir None)
        (demo_request ''id-1'' ''robo-race'' ''Alpha'' ''asha@example.com'' ''+919876543210''
           ''123456789012'' (demo_upload ''aadhar-1.pdf'' ''AAAA'')
           (demo_upload ''college-1.pdf'' ''CCCC'')) initial))
   \<and> map mobile (records (snd (register Disk demo_lib (demo_env demo_dir None)
        (demo_request ''id-1'' ''robo-race'' ''Alpha'' ''asha@example.com'' ''+919876543210''
           ''123456789012'' (demo_upload ''aadhar-1.pdf'' ''AAAA'')
           (demo_upload ''college-1.pdf'' ''CCCC'')) initial))) = [''+919876543210'']
   \<and> ValidationError (fst (register Memory demo_lib (demo_env demo_dir None)
        (demo_request ''id-1'' ''robo-race'' ''Alpha'' ''asha@example.com'' ''+919876543210''
           ''123456789012'' (demo_upload ''aadhar-1.pdf'' ''AAAA'')
           (demo_upload ''college-1.pdf'' ''CCCC'')) initial))"
proof -
  let ?e = "demo_env demo_dir None"
  let ?aF = "demo_upload ''aadhar-1.pdf'' ''AAAA''" and ?cF = "demo_upload ''college-1.pdf'' ''CCCC''"
  let ?req = "demo_request ''id-1'' ''robo-race'' ''Alpha'' ''asha@example.com''
      ''+919876543210'' ''123456789012'' ?aF ?cF"
  let ?b = "sanitize demo_lib (demo_form ''id-1'' ''robo-race'' ''Alpha'' ''asha@example.com''
         ''+919876543210'' ''123456789012'')"
  let ?d = "new_Registration ?e ?b (Some (path ?aF)) (''digest:'' @ ''AAAA'')
      (Some (path ?cF)) (''digest:'' @ ''CCCC'')"
  have v: "validationResult_disk demo_lib (demo_form ''id-1'' ''robo-race'' ''Alpha''
      ''asha@example.com'' ''+919876543210'' ''123456789012'') = []"
    by (simp add: demo_validation_disk demo_patterns demo_trims)
  have docd: "document Disk demo_lib ?e ?req = Some ?d"
    by (rule demo_document_disk [OF v])
       (simp_all add: demo_readStream demo_dir_def demo_upload_def)
  have sv: "schema_valid Disk ?d"
    by (simp add: demo_schema_valid demo_trims demo_upload_def)
  have "\<not> rx_test mobile_pattern (field (body ?req) ''mobile'')"
    by (simp add: demo_request_def demo_form_def field_def demo_patterns)
  from memory_mobile_enforced [OF this, of demo_lib ?e initial]
    register_fresh [OF docd _ _ _ sv, of initial]
  show ?thesis
    by (simp add: initial_def same_column_conflict_def team_conflict_def field_conflict_def
        demo_readStream new_Registration_simps demo_fields demo_patterns)
qed

section \<open>Validation and the schema\<close>





section \<open>An address that is invalid as sent\<close>








end
